theory Spec2Isabelle
  imports Main "HOL-Library.AList" "HOL-Library.Word"
begin

section \<open>JavaScript values\<close>

text \<open>
  The values that flow through \<^verbatim>\<open>src/index.tsx\<close>: property bags, styles, class
  names and children. A function value carries its source text (what
  \<^verbatim>\<open>Function.prototype.toString\<close> returns) and its behaviour on an interaction state
  of type \<^typ>\<open>'s\<close> (the \<^verbatim>\<open>renderProps\<close> of a pressable). A number is an integer
  from \<open>- 2 ^ 53\<close> to \<open>2 ^ 53 - 1\<close>, the signed reading of a word of 54 bits: each of them
  is a double, and its string form is its decimal digits. Fractions, larger numbers,
  \<^verbatim>\<open>NaN\<close> and the infinities are not among the values.
  An object is a plain one, with the prototype \<^verbatim>\<open>Object.prototype\<close>, and is given as the
  list of its own enumerable properties in insertion order; a property is read by key, so
  the first binding of a key is the one that counts.
\<close>

datatype 's jsval =
    Undefined
  | Null
  | Bool bool
  | Num "54 word"
  | Str string
  | Arr "'s jsval list"
  | Obj "(string \<times> 's jsval) list"
  | Fn string "'s \<Rightarrow> 's jsval"

type_synonym 's obj = "(string \<times> 's jsval) list"

text \<open>\<^verbatim>\<open>x == null\<close>\<close>

fun nullish :: "'s jsval \<Rightarrow> bool" where
  "nullish Undefined = True"
| "nullish Null = True"
| "nullish _ = False"

text \<open>\<^verbatim>\<open>typeof x === 'function'\<close>\<close>

fun is_function :: "'s jsval \<Rightarrow> bool" where
  "is_function (Fn src f) = True"
| "is_function _ = False"

text \<open>Calling a function value; only used where the source has checked \<^verbatim>\<open>typeof\<close>.\<close>

fun call :: "'s jsval \<Rightarrow> 's \<Rightarrow> 's jsval" where
  "call (Fn src f) s = f s"
| "call _ s = Undefined"

text \<open>ToBoolean\<close>

fun truthy :: "'s jsval \<Rightarrow> bool" where
  "truthy Undefined = False"
| "truthy Null = False"
| "truthy (Bool b) = b"
| "truthy (Num n) = (n \<noteq> 0)"
| "truthy (Str s) = (s \<noteq> [])"
| "truthy _ = True"

subsection \<open>String forms\<close>

text \<open>The decimal digits of an integer, as \<^verbatim>\<open>Number.prototype.toString\<close> writes them.\<close>

definition digit_char :: "nat \<Rightarrow> char" where
  "digit_char d = char_of (48 + d)"

fun string_of_nat :: "nat \<Rightarrow> string" where
  "string_of_nat n =
     (if n < 10 then [digit_char n]
      else string_of_nat (n div 10) @ [digit_char (n mod 10)])"

declare string_of_nat.simps [simp del]

definition string_of_int :: "int \<Rightarrow> string" where
  "string_of_int i = (if i < 0 then CHR ''-'' # string_of_nat (nat (- i)) else string_of_nat (nat i))"

text \<open>Strings joined with a separator, as \<^verbatim>\<open>Array.prototype.join\<close> joins them.\<close>

fun join :: "string \<Rightarrow> string list \<Rightarrow> string" where
  "join sep [] = []"
| "join sep [x] = x"
| "join sep (x # y # ys) = x @ sep @ join sep (y # ys)"


subsection \<open>Property access, assignment and spread\<close>

text \<open>
  \<^verbatim>\<open>o[k]\<close>, for a name that the object owns or that \<^verbatim>\<open>Object.prototype\<close> does not
  define, as are the names that the code reads: an absent property reads as
  \<^verbatim>\<open>undefined\<close>.
\<close>

definition get :: "'s obj \<Rightarrow> string \<Rightarrow> 's jsval" where
  "get o' k = (case map_of o' k of None \<Rightarrow> Undefined | Some v \<Rightarrow> v)"

text \<open>\<^verbatim>\<open>Object.keys(o)\<close>\<close>

definition keys :: "'s obj \<Rightarrow> string list" where
  "keys o' = map fst o'"

text \<open>
  Defining an own property, as a spread, a rest pattern and the attributes of an element
  do: an existing key keeps its place, a new key goes last.
\<close>

definition put :: "string \<Rightarrow> 's jsval \<Rightarrow> 's obj \<Rightarrow> 's obj" where
  "put k v o' = AList.update k v o'"

text \<open>
  The assignment \<^verbatim>\<open>o[k] = v\<close> on an object made by an object literal. It defines the
  property, but for the key \<^verbatim>\<open>__proto__\<close> on an object that owns no property of that
  name: there the assignment calls the setter inherited from \<^verbatim>\<open>Object.prototype\<close>, and
  no property is made. The setter ignores a value that is neither an object nor
  \<^verbatim>\<open>null\<close>; the prototype that it installs otherwise is not kept here, where an object
  is its own properties, the part of it that the spreads consuming it read. (Only a
  function installed as prototype would show: its read-only \<^verbatim>\<open>name\<close> and \<^verbatim>\<open>length\<close>
  make a later assignment to these two names throw.)
\<close>

definition assign :: "string \<Rightarrow> 's jsval \<Rightarrow> 's obj \<Rightarrow> 's obj" where
  "assign k v o' = (if k = ''__proto__'' \<and> map_of o' k = None then o' else put k v o')"

text \<open>
  The own enumerable properties that a spread \<^verbatim>\<open>{...v}\<close> sees: those of an object, the
  indices of an array or a string, none for any other value.
\<close>

fun own_entries :: "'s jsval \<Rightarrow> 's obj" where
  "own_entries (Obj kvs) = kvs"
| "own_entries (Arr xs) = zip (map string_of_nat [0..<length xs]) xs"
| "own_entries (Str s) = zip (map string_of_nat [0..<length s]) (map (\<lambda>c. Str [c]) s)"
| "own_entries _ = []"

text \<open>
  \<^verbatim>\<open>{...target, ...src}\<close> continued on an object under construction: every own key of
  the source, in order, is read and assigned.
\<close>

definition spread :: "'s obj \<Rightarrow> 's obj \<Rightarrow> 's obj" where
  "spread target src = fold (\<lambda>k acc. put k (get src k) acc) (keys src) target"

section \<open>The helpers of index.tsx\<close>

text \<open>
  \<^verbatim>\<open>filterProps\<close>: the loop over \<^verbatim>\<open>Object.keys(props)\<close> that copies the properties the
  predicate accepts, each by the assignment \<^verbatim>\<open>filteredProps[prop] = props[prop]\<close>.
\<close>

definition filterProps :: "'s obj \<Rightarrow> (string \<Rightarrow> bool) \<Rightarrow> 's obj" where
  "filterProps props shouldForwardProp =
     fold (\<lambda>prop filteredProps.
             if shouldForwardProp prop then assign prop (get props prop) filteredProps
             else filteredProps)
          (keys props) []"

text \<open>
  \<^verbatim>\<open>flattenStyle\<close>: nothing for \<^verbatim>\<open>null\<close>/\<^verbatim>\<open>undefined\<close>, the left-to-right reduction
  of an array, the style itself otherwise.
\<close>

fun flattenStyle :: "'s jsval \<Rightarrow> 's jsval" where
  "flattenStyle Undefined = Obj []"
| "flattenStyle Null = Obj []"
| "flattenStyle (Arr style) =
     Obj (fold (\<lambda>s acc. spread (spread [] acc) (own_entries (flattenStyle s))) style [])"
| "flattenStyle style = style"

definition mergeStyles :: "'s jsval \<Rightarrow> 's jsval \<Rightarrow> 's jsval" where
  "mergeStyles baseStyle overrideStyle =
     (if nullish baseStyle then overrideStyle
      else if nullish overrideStyle then baseStyle
      else Obj (spread (spread [] (own_entries (flattenStyle baseStyle)))
                       (own_entries (flattenStyle overrideStyle))))"

definition mergePropsWithAttrs :: "'s obj \<Rightarrow> 's obj \<Rightarrow> 's obj" where
  "mergePropsWithAttrs attrs props =
     (let merged = spread (spread [] attrs) props
      in if \<not> nullish (get attrs ''style'') \<and> \<not> nullish (get props ''style'')
         then assign ''style'' (mergeStyles (get attrs ''style'') (get props ''style'')) merged
         else merged)"

section \<open>The default compose function\<close>

text \<open>
  The \<^verbatim>\<open>clsx\<close> package that \<^verbatim>\<open>createTwc\<close> falls back on is imported, not part of
  the sources. The spec describes the default compose as a falsy-value-filtering,
  array-flattening, space-joining combinator, and a class value as a string, a mapping of
  class name to boolean (a key is included when its value is truthy, in insertion order),
  or a sequence mixing these.
\<close>

text \<open>
  Modelled from the spec: space-joining, the step that appends one class to the string
  built so far. The separator is written only after a non-empty string.
\<close>

definition add_class :: "string \<Rightarrow> string \<Rightarrow> string" where
  "add_class str x = (if str \<noteq> [] then str @ '' '' else str) @ x"

text \<open>
  Modelled from the spec: the classes of one class value. A string stands for itself
  and a number for its string form, a sequence contributes its truthy entries in order,
  a mapping its keys with a truthy value in insertion order, anything else nothing.
\<close>

fun toVal :: "'s jsval \<Rightarrow> string" where
  "toVal (Str s) = s"
| "toVal (Num n) = string_of_int (sint n)"
| "toVal (Arr mix) =
     fold (\<lambda>x str. if truthy x then (let y = toVal x in if y \<noteq> [] then add_class str y else str)
                     else str) mix []"
| "toVal (Obj mix) =
     fold (\<lambda>y str. if truthy (get mix y) then add_class str y else str) (keys mix) []"
| "toVal _ = []"

text \<open>
  Modelled from the spec: the default compose over its arguments. Falsy arguments and
  arguments without classes are skipped, the rest are space-joined; nothing is
  deduplicated.
\<close>

definition clsx :: "'s jsval list \<Rightarrow> string" where
  "clsx args =
     fold (\<lambda>tmp str. if truthy tmp then (let x = toVal tmp in if x \<noteq> [] then add_class str x else str)
                       else str) args []"

section \<open>createTwc\<close>

type_synonym 's compose = "'s jsval \<Rightarrow> 's jsval \<Rightarrow> 's jsval"

record 's config =
  compose :: "'s compose option"
  shouldForwardProp :: "(string \<Rightarrow> bool) option"

text \<open>The empty configuration \<^verbatim>\<open>{}\<close>, the default argument of \<^verbatim>\<open>createTwc\<close>.\<close>

definition empty_config :: "'s config" where
  "empty_config = \<lparr>compose = None, shouldForwardProp = None\<rparr>"

text \<open>\<^verbatim>\<open>config.compose || clsx\<close>, called with the base class name and the prop.\<close>

definition compose_of :: "'s config \<Rightarrow> 's compose" where
  "compose_of config =
     (case compose config of Some c \<Rightarrow> c | None \<Rightarrow> (\<lambda>a b. Str (clsx [a, b])))"

text \<open>
  \<^verbatim>\<open>config.shouldForwardProp || ((prop) => prop[0] !== '$')\<close>; on the empty name
  \<^verbatim>\<open>prop[0]\<close> is \<^verbatim>\<open>undefined\<close>.
\<close>

definition defaultShouldForwardProp :: "'s config \<Rightarrow> string \<Rightarrow> bool" where
  "defaultShouldForwardProp config =
     (case shouldForwardProp config of
        Some f \<Rightarrow> f
      | None \<Rightarrow> (\<lambda>prop. case prop of [] \<Rightarrow> True | c # cs \<Rightarrow> c \<noteq> CHR ''$''))"

text \<open>The base component, as far as the wrapper looks at it.\<close>

record base_component =
  displayName :: "string option"
  name :: string

text \<open>
  \<^verbatim>\<open>Attributes\<close>: a static mapping, or a function of the incoming properties.
\<close>

datatype 's attributes =
    AttrsObj "'s obj"
  | AttrsFn "'s obj \<Rightarrow> 's obj"

text \<open>
  The two shapes of a template invocation: the literal fragments with the interpolated
  values, or a function (its source text and its behaviour on the incoming properties).
  An interpolated value is given by its string form, the result of the language's
  \<^verbatim>\<open>ToString\<close> on it (\<^verbatim>\<open>"p-4"\<close> for the string \<^verbatim>\<open>"p-4"\<close>, \<^verbatim>\<open>"1.5"\<close> for the number,
  \<^verbatim>\<open>"true"\<close> for the boolean): \<^verbatim>\<open>String.raw\<close> converts every substitution it uses,
  and the values are passed to nothing else. A value whose conversion throws is not an
  input here.
\<close>

datatype 's template_input =
    Literal "string list" "string list"
  | ClassFn string "'s obj \<Rightarrow> 's jsval"

text \<open>
  \<^verbatim>\<open>String.raw({ raw: strings }, ...values)\<close>: the fragments in order, the string form
  of the next substitution after each fragment but the last, as long as substitutions
  remain.
\<close>

fun String_raw :: "string list \<Rightarrow> string list \<Rightarrow> string" where
  "String_raw [] values = []"
| "String_raw [s] values = s"
| "String_raw (s # ss) [] = s @ String_raw ss []"
| "String_raw (s # ss) (v # values) = s @ v @ String_raw ss values"

fun cacheKey :: "'s template_input \<Rightarrow> string" where
  "cacheKey (ClassFn src f) = src"
| "cacheKey (Literal strings values) = String_raw strings values"

text \<open>
  A wrapped component: the function object made by \<^verbatim>\<open>React.forwardRef\<close>, with its
  identity and everything its closure holds.
\<close>

record 's wrapped =
  w_ref :: nat
  w_displayName :: string
  w_Component :: base_component
  w_compose :: "'s compose"
  w_attrs :: "'s attributes option"
  w_shouldForwardProp :: "string \<Rightarrow> bool"
  w_childrenRenderer :: "('s jsval \<Rightarrow> 's jsval) option"
  w_stringsOrFn :: "'s template_input"

text \<open>
  A Template Binder: what \<^verbatim>\<open>createTemplate\<close> closes over, and its
  \<^verbatim>\<open>componentCache\<close>.
\<close>

record 's template =
  t_compose :: "'s compose"
  t_Component :: base_component
  t_attrs :: "'s attributes option"
  t_shouldForwardProp :: "string \<Rightarrow> bool"
  t_childrenRenderer :: "('s jsval \<Rightarrow> 's jsval) option"
  componentCache :: "string \<rightharpoonup> 's wrapped"

definition createTemplate ::
  "'s compose \<Rightarrow> base_component \<Rightarrow> 's attributes option \<Rightarrow> (string \<Rightarrow> bool) \<Rightarrow>
   ('s jsval \<Rightarrow> 's jsval) option \<Rightarrow> 's template" where
  "createTemplate cmp Component attrs sfp childrenRenderer =
     \<lparr>t_compose = cmp, t_Component = Component, t_attrs = attrs,
      t_shouldForwardProp = sfp, t_childrenRenderer = childrenRenderer,
      componentCache = Map.empty\<rparr>"

text \<open>\<^verbatim>\<open>createTwc(config)\<close> returns \<^verbatim>\<open>wrap\<close>; \<^verbatim>\<open>wrap(Component)\<close> is \<^verbatim>\<open>createTemplate()\<close>.\<close>

definition createTwc :: "'s config \<Rightarrow> base_component \<Rightarrow> 's template" where
  "createTwc config Component =
     createTemplate (compose_of config) Component None (defaultShouldForwardProp config) None"

text \<open>The default instance \<^verbatim>\<open>twc\<close>.\<close>

definition twc :: "base_component \<Rightarrow> 's template" where
  "twc = createTwc empty_config"

subsection \<open>The modifiers\<close>

datatype transient_arg =
    Names "string list"
  | Pred "string \<Rightarrow> bool"

definition transientProps :: "'s template \<Rightarrow> transient_arg \<Rightarrow> 's template" where
  "transientProps t fnOrArray =
     (let newShouldForwardProp =
            (case fnOrArray of
               Pred fn \<Rightarrow> (\<lambda>prop. \<not> fn prop)
             | Names array \<Rightarrow> (\<lambda>prop. prop \<notin> set array))
      in createTemplate (t_compose t) (t_Component t) (t_attrs t) newShouldForwardProp
           (t_childrenRenderer t))"

definition withChildren :: "'s template \<Rightarrow> ('s jsval \<Rightarrow> 's jsval) \<Rightarrow> 's template" where
  "withChildren t renderer =
     createTemplate (t_compose t) (t_Component t) (t_attrs t) (t_shouldForwardProp t)
       (Some renderer)"

text \<open>\<^verbatim>\<open>template.attrs\<close> exists only while no attrs are bound.\<close>

definition attrs :: "'s template \<Rightarrow> 's attributes \<Rightarrow> 's template option" where
  "attrs t newAttrs =
     (case t_attrs t of
        None \<Rightarrow> Some (createTemplate (t_compose t) (t_Component t) (Some newAttrs)
                        (t_shouldForwardProp t) (t_childrenRenderer t))
      | Some a \<Rightarrow> None)"

subsection \<open>Invoking the binder\<close>

text \<open>
  \<^verbatim>\<open>`twc(${Component.displayName || Component.name || 'Component'})`\<close>; an empty string
  is falsy.
\<close>

definition twc_displayName :: "base_component \<Rightarrow> string" where
  "twc_displayName Component =
     ''twc('' @
     (case displayName Component of
        Some d \<Rightarrow> if d \<noteq> [] then d
                  else if name Component \<noteq> [] then name Component else ''Component''
      | None \<Rightarrow> if name Component \<noteq> [] then name Component else ''Component'') @ '')''"

text \<open>
  \<^verbatim>\<open>template(stringsOrFn, ...values)\<close>. The number threaded through is the next free
  object identity: a cache hit returns the stored component and allocates nothing, a miss
  makes a new function object and stores it under the key.
\<close>

definition template ::
  "'s template \<Rightarrow> 's template_input \<Rightarrow> nat \<Rightarrow> 's wrapped \<times> 's template \<times> nat" where
  "template t stringsOrFn next =
     (let key = cacheKey stringsOrFn
      in case componentCache t key of
           Some cached \<Rightarrow> (cached, t, next)
         | None \<Rightarrow>
             (let component =
                    \<lparr>w_ref = next,
                     w_displayName = twc_displayName (t_Component t),
                     w_Component = t_Component t,
                     w_compose = t_compose t,
                     w_attrs = t_attrs t,
                     w_shouldForwardProp = t_shouldForwardProp t,
                     w_childrenRenderer = t_childrenRenderer t,
                     w_stringsOrFn = stringsOrFn\<rparr>
              in (component,
                  t\<lparr>componentCache := (componentCache t)(key \<mapsto> component)\<rparr>,
                  Suc next)))"

section \<open>Rendering a wrapped component\<close>

text \<open>\<^verbatim>\<open>const { className: classNameProp, children, ...rest } = p\<close>\<close>

definition rest_of :: "'s obj \<Rightarrow> 's obj" where
  "rest_of p =
     fold (\<lambda>k acc. if k = ''className'' \<or> k = ''children'' then acc else put k (get p k) acc)
          (keys p) []"

definition finalProps :: "'s wrapped \<Rightarrow> 's obj \<Rightarrow> 's obj" where
  "finalProps w p =
     (case w_attrs w of
        None \<Rightarrow> filterProps (rest_of p) (w_shouldForwardProp w)
      | Some (AttrsFn f) \<Rightarrow>
          filterProps (mergePropsWithAttrs (f p) (rest_of p)) (w_shouldForwardProp w)
      | Some (AttrsObj staticAttrs) \<Rightarrow>
          filterProps (mergePropsWithAttrs staticAttrs (rest_of p)) (w_shouldForwardProp w))"

text \<open>
  \<^verbatim>\<open>isClassFn ? stringsOrFn(p) : tplClassName\<close>, where \<^verbatim>\<open>tplClassName\<close> is the cache
  key of the literal template.
\<close>

definition baseClassName :: "'s wrapped \<Rightarrow> 's obj \<Rightarrow> 's jsval" where
  "baseClassName w p =
     (case w_stringsOrFn w of
        ClassFn src f \<Rightarrow> f p
      | Literal strings values \<Rightarrow> Str (cacheKey (Literal strings values :: 's template_input)))"

text \<open>The text of the arrow function that defers the class name.\<close>

definition deferred_source :: string where
  "deferred_source = ''(renderProps) => compose(baseClassName(renderProps), typeof classNameProp === `function` ? classNameProp(renderProps) : classNameProp)''"

definition finalClassName :: "'s wrapped \<Rightarrow> 's obj \<Rightarrow> 's jsval" where
  "finalClassName w p =
     (let classNameProp = get p ''className'';
          base = baseClassName w p
      in if is_function base
         then Fn deferred_source
                (\<lambda>renderProps.
                   w_compose w (call base renderProps)
                     (if is_function classNameProp then call classNameProp renderProps
                      else classNameProp))
         else w_compose w base classNameProp)"

definition finalChildren :: "'s wrapped \<Rightarrow> 's obj \<Rightarrow> 's jsval" where
  "finalChildren w p =
     (case w_childrenRenderer w of
        Some childrenRenderer \<Rightarrow> childrenRenderer (get p ''children'')
      | None \<Rightarrow> get p ''children'')"

text \<open>
  The element returned: the base component with the attributes of
  \<^verbatim>\<open><Comp ref={ref} className={finalClassName} {...finalProps}>{finalChildren}</Comp>\<close>
  in the order they are written, the children last.
\<close>

record 's element =
  el_type :: base_component
  el_props :: "'s obj"

definition ForwardedComponent :: "'s wrapped \<Rightarrow> 's obj \<Rightarrow> 's jsval \<Rightarrow> 's element" where
  "ForwardedComponent w p ref =
     \<lparr>el_type = w_Component w,
      el_props =
        put ''children'' (finalChildren w p)
          (spread [(''ref'', ref), (''className'', finalClassName w p)] (finalProps w p))\<rparr>"

section \<open>Notions used to state the properties\<close>

text \<open>
  A run of invocations of one binder, each continuing with the cache and the next free
  identity the previous one left.
\<close>

fun invoke_all :: "'s template \<Rightarrow> 's template_input list \<Rightarrow> nat \<Rightarrow> 's template \<times> nat" where
  "invoke_all t [] n = (t, n)"
| "invoke_all t (i # inputs) n =
     (case template t i n of (w, t', n') \<Rightarrow> invoke_all t' inputs n')"

text \<open>
  The entries a style contributes to a merge: the own properties of its flattened form,
  as \<^verbatim>\<open>{...flattenStyle(style)}\<close> copies them.
\<close>

definition style_entries :: "'s jsval \<Rightarrow> 's obj" where
  "style_entries style = own_entries (flattenStyle style)"

section \<open>Components and functions of the test suite\<close>

text \<open>The interaction state a pressable hands to a deferred class name.\<close>

record press_state =
  pressed :: bool
  hovered :: bool
  focused :: bool

text \<open>The mocked base components; a \<^verbatim>\<open>forwardRef\<close> object has a display name only.\<close>

definition View :: base_component where
  "View = \<lparr>displayName = Some ''View'', name = []\<rparr>"

definition Pressable :: base_component where
  "Pressable = \<lparr>displayName = Some ''Pressable'', name = []\<rparr>"

text \<open>\<^verbatim>\<open>(children) => children ?? "Fallback"\<close>\<close>

definition fallback_renderer :: "press_state jsval \<Rightarrow> press_state jsval" where
  "fallback_renderer children = (if nullish children then Str ''Fallback'' else children)"

text \<open>
  \<^verbatim>\<open>(props) => ({ secureTextEntry: props.$secure,
    placeholder: props.$secure ? "Enter password" : "Enter text" })\<close>
\<close>

definition secure_attrs :: "press_state obj \<Rightarrow> press_state obj" where
  "secure_attrs props =
     [(''secureTextEntry'', get props ''$secure''),
      (''placeholder'',
         Str (if truthy (get props ''$secure'') then ''Enter password'' else ''Enter text''))]"

text \<open>
  \<^verbatim>\<open>(props) => ({ "bg-blue-500 text-white": props.$variant === "primary",
    "bg-gray-200 text-gray-800": props.$variant === "secondary" })\<close>
\<close>

definition variant_src :: string where
  "variant_src = ''(props) => ({ `bg-blue-500 text-white`: props.$variant === `primary`, `bg-gray-200 text-gray-800`: props.$variant === `secondary` })''"

definition variant_class :: "press_state obj \<Rightarrow> press_state jsval" where
  "variant_class props =
     Obj [(''bg-blue-500 text-white'', Bool (get props ''$variant'' = Str ''primary'')),
          (''bg-gray-200 text-gray-800'', Bool (get props ''$variant'' = Str ''secondary''))]"

text \<open>
  \<^verbatim>\<open>() => (renderProps) => renderProps.hovered ? "bg-blue-600" : "bg-blue-500"\<close>:
  the source text of the class function, that of the function it returns, and their
  behaviour.
\<close>

definition hover_src :: string where
  "hover_src = ''() => (renderProps) => renderProps.hovered ? `bg-blue-600` : `bg-blue-500`''"

definition hover_inner_src :: string where
  "hover_inner_src = ''(renderProps) => renderProps.hovered ? `bg-blue-600` : `bg-blue-500`''"

definition hover_class_fn :: "press_state \<Rightarrow> press_state jsval" where
  "hover_class_fn renderProps =
     Str (if hovered renderProps then ''bg-blue-600'' else ''bg-blue-500'')"

definition hover_class :: "press_state obj \<Rightarrow> press_state jsval" where
  "hover_class props = Fn hover_inner_src hover_class_fn"

text \<open>\<^verbatim>\<open>(props) => props.pressed ? "scale-95" : ""\<close>, passed as \<^verbatim>\<open>className\<close>.\<close>

definition press_src :: string where
  "press_src = ''(props) => props.pressed ? `scale-95` : ``''"

definition press_class_fn :: "press_state \<Rightarrow> press_state jsval" where
  "press_class_fn props = Str (if pressed props then ''scale-95'' else [])"

definition press_className :: "press_state jsval" where
  "press_className = Fn press_src press_class_fn"

text \<open>\<^verbatim>\<open>(prop) => prop === "size"\<close>\<close>

definition is_size :: "string \<Rightarrow> bool" where
  "is_size prop = (prop = ''size'')"

text \<open>Two forwarding predicates that differ on \<^verbatim>\<open>className\<close> and \<^verbatim>\<open>children\<close> only.\<close>

definition forward_all :: "string \<Rightarrow> bool" where
  "forward_all prop = True"

definition forward_but_class_and_children :: "string \<Rightarrow> bool" where
  "forward_but_class_and_children prop = (if prop = ''className'' then False else prop \<noteq> ''children'')"

section \<open>Reading the objects that the helpers build\<close>

lemma map_of_put: "map_of (put k v ob) = (map_of ob)(k \<mapsto> v)"
  by (simp add: put_def update_conv')

lemma in_keys: "j \<in> set (keys ob) \<longleftrightarrow> map_of ob j \<noteq> None"
  by (simp add: keys_def map_of_eq_None_iff)

lemma get_Some: "map_of ob k = Some v \<Longrightarrow> get ob k = v"
  by (simp add: get_def)

lemma get_None: "map_of ob k = None \<Longrightarrow> get ob k = Undefined"
  by (simp add: get_def)

lemma map_of_assign:
  "map_of (assign k v ob) =
     (if k = ''__proto__'' \<and> map_of ob k = None then map_of ob else (map_of ob)(k \<mapsto> v))"
  by (auto simp: assign_def map_of_put)

lemma map_of_fold_assign_if:
  "map_of t ''__proto__'' = None \<Longrightarrow>
   map_of (fold (\<lambda>k acc. if P k then assign k (f k) acc else acc) ks t) j =
     (if j \<in> set ks \<and> P j \<and> j \<noteq> ''__proto__'' then Some (f j) else map_of t j)"
  by (induction ks arbitrary: t) (auto simp: map_of_assign)

lemma map_of_fold_put_if:
  "map_of (fold (\<lambda>k acc. if P k then put k (f k) acc else acc) ks t) j =
     (if j \<in> set ks \<and> P j then Some (f j) else map_of t j)"
  by (induction ks arbitrary: t) (auto simp: map_of_put)

lemma map_of_fold_put_unless:
  "map_of (fold (\<lambda>k acc. if Q k then acc else put k (f k) acc) ks t) j =
     (if j \<in> set ks \<and> \<not> Q j then Some (f j) else map_of t j)"
  by (induction ks arbitrary: t) (auto simp: map_of_put)

lemma map_of_fold_put:
  "map_of (fold (\<lambda>k acc. put k (f k) acc) ks t) j =
     (if j \<in> set ks then Some (f j) else map_of t j)"
  using map_of_fold_put_if [of "\<lambda>k. True" f ks t j] by simp

lemma map_of_spread: "map_of (spread t s) = map_of t ++ map_of s"
proof
  fix j
  show "map_of (spread t s) j = (map_of t ++ map_of s) j"
    by (cases "map_of s j")
       (simp_all add: spread_def map_of_fold_put in_keys map_add_def get_Some)
qed

text \<open>
  The filtered object has the accepted properties, but never one named \<^verbatim>\<open>__proto__\<close>:
  the filter starts from an empty object literal and copies by assignment.
\<close>

lemma map_of_filterProps:
  "map_of (filterProps props P) j =
     (if P j \<and> j \<noteq> ''__proto__'' then map_of props j else None)"
  by (cases "map_of props j")
     (simp_all add: filterProps_def map_of_fold_assign_if in_keys get_Some)

lemma map_of_rest_of:
  "map_of (rest_of p) j = (if j = ''className'' \<or> j = ''children'' then None else map_of p j)"
  by (cases "map_of p j")
     (simp_all add: rest_of_def map_of_fold_put_unless in_keys get_Some)

lemma keys_rest_of:
  "j \<in> set (keys (rest_of p)) \<Longrightarrow> j \<noteq> ''className'' \<and> j \<noteq> ''children''"
  by (auto simp: in_keys map_of_rest_of split: if_splits)

lemma filterProps_cong:
  assumes "\<And>j. j \<in> set (keys props) \<Longrightarrow> P j = Q j"
  shows "filterProps props P = filterProps props Q"
  unfolding filterProps_def using assms by (intro fold_cong refl) auto

subsection \<open>Merging attrs and props\<close>

lemma map_of_merge_other:
  "j \<noteq> ''style'' \<Longrightarrow> map_of (mergePropsWithAttrs a p) j = (map_of a ++ map_of p) j"
  by (simp add: mergePropsWithAttrs_def Let_def map_of_assign map_of_spread)

lemma map_of_merge_style:
  "map_of (mergePropsWithAttrs a p) ''style'' =
     (if \<not> nullish (get a ''style'') \<and> \<not> nullish (get p ''style'')
      then Some (mergeStyles (get a ''style'') (get p ''style''))
      else (map_of a ++ map_of p) ''style'')"
  by (simp add: mergePropsWithAttrs_def Let_def map_of_assign map_of_spread)

lemma style_entries_snoc:
  "map_of (style_entries (Arr (layers @ [layer]))) =
     map_of (style_entries (Arr layers)) ++ map_of (style_entries layer)"
  by (simp add: style_entries_def map_of_spread)

lemma mergeStyles_both:
  "\<not> nullish a \<Longrightarrow> \<not> nullish b \<Longrightarrow>
   \<exists>m. mergeStyles a b = Obj m \<and> map_of m = map_of (style_entries a) ++ map_of (style_entries b)"
  by (simp add: mergeStyles_def style_entries_def map_of_spread)

text \<open>
  What holds when one side has no usable style: an absent \<^verbatim>\<open>style\<close> key on either
  side, or a \<^verbatim>\<open>null\<close>/\<^verbatim>\<open>undefined\<close> style in the attrs, leaves the other side's value;
  \<^verbatim>\<open>mergeStyles\<close> itself returns the other argument.
\<close>

lemma style_missing_on_one_side:
  "map_of p ''style'' = None \<Longrightarrow>
     map_of (mergePropsWithAttrs a p) ''style'' = map_of a ''style''"
  "map_of a ''style'' = None \<Longrightarrow>
     map_of (mergePropsWithAttrs a p) ''style'' = map_of p ''style''"
  "nullish (get a ''style'') \<Longrightarrow> map_of p ''style'' = Some v \<Longrightarrow>
     map_of (mergePropsWithAttrs a p) ''style'' = Some v"
  "nullish b \<Longrightarrow> mergeStyles b s = s"
  "nullish b \<Longrightarrow> \<not> nullish s \<Longrightarrow> mergeStyles s b = s"
  by (auto simp: map_of_merge_style get_None map_add_def mergeStyles_def split: option.splits
        elim: nullish.elims)

text \<open>
  A \<^verbatim>\<open>style\<close> key that the props carry with a \<^verbatim>\<open>null\<close>/\<^verbatim>\<open>undefined\<close> value is
  copied by the spread and never merged: it replaces the style of the attrs.
\<close>

lemma explicit_nullish_props_style_wins:
  "map_of p ''style'' = Some v \<Longrightarrow> nullish v \<Longrightarrow>
     map_of (mergePropsWithAttrs a p) ''style'' = Some v"
  by (simp add: map_of_merge_style get_Some map_add_def)

subsection \<open>The default compose on two arguments\<close>

lemma clsx_pair:
  "clsx [Str T, C] = join '' '' (filter (\<lambda>x. x \<noteq> []) [T, if truthy C then toVal C else []])"
  by (simp add: clsx_def Let_def add_class_def)

section \<open>Binders and their caches\<close>

lemma createTemplate_fields:
  "t_compose (createTemplate cmp C a sfp r) = cmp"
  "t_Component (createTemplate cmp C a sfp r) = C"
  "t_attrs (createTemplate cmp C a sfp r) = a"
  "t_shouldForwardProp (createTemplate cmp C a sfp r) = sfp"
  "t_childrenRenderer (createTemplate cmp C a sfp r) = r"
  "componentCache (createTemplate cmp C a sfp r) = Map.empty"
  by (simp_all add: createTemplate_def)

lemma twc_unfold:
  "twc C = createTemplate (\<lambda>a b. Str (clsx [a, b])) C None
             (\<lambda>prop. case prop of [] \<Rightarrow> True | c # cs \<Rightarrow> c \<noteq> CHR ''$'') None"
  by (simp add: twc_def createTwc_def compose_of_def defaultShouldForwardProp_def empty_config_def)

lemma default_rejects_dollar:
  "\<not> defaultShouldForwardProp empty_config (CHR ''$'' # cs)"
  by (simp add: defaultShouldForwardProp_def empty_config_def)

lemma template_fresh:
  "template (createTemplate cmp C a sfp r) i n =
     (\<lparr>w_ref = n, w_displayName = twc_displayName C, w_Component = C, w_compose = cmp,
       w_attrs = a, w_shouldForwardProp = sfp, w_childrenRenderer = r, w_stringsOrFn = i\<rparr>,
      (createTemplate cmp C a sfp r)\<lparr>componentCache :=
         [cacheKey i \<mapsto>
            \<lparr>w_ref = n, w_displayName = twc_displayName C, w_Component = C, w_compose = cmp,
             w_attrs = a, w_shouldForwardProp = sfp, w_childrenRenderer = r,
             w_stringsOrFn = i\<rparr>]\<rparr>,
      Suc n)"
  by (simp add: template_def createTemplate_def Let_def)

lemma fresh_fields:
  "w_compose (fst (template (createTemplate cmp C a sfp r) i n)) = cmp"
  "w_attrs (fst (template (createTemplate cmp C a sfp r) i n)) = a"
  "w_shouldForwardProp (fst (template (createTemplate cmp C a sfp r) i n)) = sfp"
  "w_childrenRenderer (fst (template (createTemplate cmp C a sfp r) i n)) = r"
  "w_stringsOrFn (fst (template (createTemplate cmp C a sfp r) i n)) = i"
  "w_Component (fst (template (createTemplate cmp C a sfp r) i n)) = C"
  "w_ref (fst (template (createTemplate cmp C a sfp r) i n)) = n"
  by (simp_all add: template_fresh)

lemma fresh_cache:
  "k \<noteq> cacheKey i \<Longrightarrow>
   componentCache (fst (snd (template (createTemplate cmp C a sfp r) i n))) k = None"
  by (simp add: template_fresh)

lemma template_hit:
  "componentCache t (cacheKey i) = Some w \<Longrightarrow> template t i n = (w, t, n)"
  by (simp add: template_def Let_def)

lemma template_miss:
  "componentCache t (cacheKey i) = None \<Longrightarrow> w_ref (fst (template t i n)) = n"
  by (simp add: template_def Let_def)

lemma template_stores:
  "template t i n = (w, t', n') \<Longrightarrow> componentCache t' (cacheKey i) = Some w"
  by (auto simp: template_def Let_def split: option.splits)

lemma template_keeps:
  "template t i n = (w, t', n') \<Longrightarrow> componentCache t k = Some c \<Longrightarrow>
   componentCache t' k = Some c"
  by (auto simp: template_def Let_def split: option.splits)

lemma invoke_all_keeps:
  "invoke_all t inputs n = (t', n') \<Longrightarrow> componentCache t k = Some c \<Longrightarrow>
   componentCache t' k = Some c"
proof (induction inputs arbitrary: t n)
  case Nil
  then show ?case by simp
next
  case (Cons i inputs)
  obtain w t1 n1 where step: "template t i n = (w, t1, n1)"
    by (cases "template t i n") auto
  with Cons.prems have "invoke_all t1 inputs n1 = (t', n')" by simp
  moreover have "componentCache t1 k = Some c"
    using template_keeps [OF step Cons.prems(2)] .
  ultimately show ?case by (rule Cons.IH)
qed

subsection \<open>The text of a literal template\<close>

lemma String_raw_splice:
  "length vals < length strings \<Longrightarrow> String_raw strings vals = concat (splice strings vals)"
  by (induction strings vals rule: String_raw.induct) simp_all

section \<open>The element a render returns\<close>

lemma el_children:
  "map_of (el_props (ForwardedComponent w p ref)) ''children'' = Some (finalChildren w p)"
  by (simp add: ForwardedComponent_def map_of_put)

lemma el_other:
  "j \<noteq> ''children'' \<Longrightarrow> j \<noteq> ''className'' \<Longrightarrow> j \<noteq> ''ref'' \<Longrightarrow>
   map_of (el_props (ForwardedComponent w p ref)) j = map_of (finalProps w p) j"
  by (simp add: ForwardedComponent_def map_of_put map_of_spread map_add_def split: option.splits)

lemma el_className:
  "map_of (el_props (ForwardedComponent w p ref)) ''className'' =
     (case map_of (finalProps w p) ''className'' of
        Some v \<Rightarrow> Some v | None \<Rightarrow> Some (finalClassName w p))"
  by (simp add: ForwardedComponent_def map_of_put map_of_spread map_add_def split: option.splits)

lemma map_of_finalProps:
  "map_of (finalProps w p) j =
     (if w_shouldForwardProp w j \<and> j \<noteq> ''__proto__''
      then map_of (case w_attrs w of
                     None \<Rightarrow> rest_of p
                   | Some (AttrsObj a) \<Rightarrow> mergePropsWithAttrs a (rest_of p)
                   | Some (AttrsFn f) \<Rightarrow> mergePropsWithAttrs (f p) (rest_of p)) j
      else None)"
  by (auto simp: finalProps_def map_of_filterProps split: option.splits attributes.splits)

lemma finalProps_className_none:
  "(case w_attrs w of
      None \<Rightarrow> True
    | Some (AttrsObj a) \<Rightarrow> map_of a ''className'' = None
    | Some (AttrsFn f) \<Rightarrow> map_of (f p) ''className'' = None) \<Longrightarrow>
   map_of (finalProps w p) ''className'' = None"
  by (auto simp: map_of_finalProps map_of_rest_of map_of_merge_other map_add_def
        split: option.splits attributes.splits)

lemma baseClassName_literal:
  "w_stringsOrFn w = Literal strings vals \<Longrightarrow> baseClassName w p = Str (String_raw strings vals)"
  by (simp add: baseClassName_def)

lemma attrs_twc:
  "attrs (twc C) a =
     Some (createTemplate (\<lambda>a b. Str (clsx [a, b])) C (Some a)
             (\<lambda>prop. case prop of [] \<Rightarrow> True | c # cs \<Rightarrow> c \<noteq> CHR ''$'') None)"
  by (simp add: attrs_def twc_unfold createTemplate_fields)

section \<open>The cache key\<close>

text \<open>
  Claim C1, as amended. The cache key of a literal-template invocation is the text of the
  template: the literal fragments with the string forms of the interpolated values
  between them, in order. It depends on the interpolated values through their string
  forms only: an invocation with the same fragments and values of the same string forms
  as an earlier one has its key and is answered with the component the earlier one
  cached. Different values may give different keys; with one interpolation the keys
  agree exactly when the string forms of the two values agree, while with more of them
  different values can make one text, as \<^verbatim>\<open>"a"\<close>, \<^verbatim>\<open>"bc"\<close> and \<^verbatim>\<open>"ab"\<close>, \<^verbatim>\<open>"c"\<close> do in
  \<^verbatim>\<open>`${x}${y}`\<close>. A function-shaped invocation keys by the function's source text.
\<close>

theorem cache_key_text:
  "(length vals < length strings \<longrightarrow>
      cacheKey (Literal strings vals :: 's template_input) = concat (splice strings vals))
   \<and> (cacheKey (Literal [a, b] [v] :: 's template_input)
        = cacheKey (Literal [a, b] [v'] :: 's template_input) \<longleftrightarrow> v = v')
   \<and> (template (t :: 's template) (Literal strings vals) n = (w, t1, n1) \<longrightarrow>
        template t1 (Literal strings vals) m = (w, t1, m))
   \<and> cacheKey (Literal ['''', '''', ''''] [''a'', ''bc''] :: 's template_input)
       = cacheKey (Literal ['''', '''', ''''] [''ab'', ''c''] :: 's template_input)
   \<and> cacheKey (ClassFn src (f :: 's obj \<Rightarrow> 's jsval)) = src"
proof -
  have spliced: "length vals < length strings \<longrightarrow>
      cacheKey (Literal strings vals :: 's template_input) = concat (splice strings vals)"
    by (simp add: String_raw_splice)
  have one: "cacheKey (Literal [a, b] [v] :: 's template_input)
        = cacheKey (Literal [a, b] [v'] :: 's template_input) \<longleftrightarrow> v = v'"
    by simp
  have cached: "template t (Literal strings vals) n = (w, t1, n1) \<longrightarrow>
        template t1 (Literal strings vals) m = (w, t1, m)"
  proof
    assume "template t (Literal strings vals) n = (w, t1, n1)"
    then have "componentCache t1 (cacheKey (Literal strings vals :: 's template_input)) = Some w"
      by (rule template_stores)
    then show "template t1 (Literal strings vals) m = (w, t1, m)"
      by (rule template_hit)
  qed
  have two: "cacheKey (Literal ['''', '''', ''''] [''a'', ''bc''] :: 's template_input)
       = cacheKey (Literal ['''', '''', ''''] [''ab'', ''c''] :: 's template_input)"
    by simp
  have fn: "cacheKey (ClassFn src f) = src"
    by simp
  from spliced one cached two fn show ?thesis
    by (intro conjI)
qed

text \<open>
  The claim as the spec words it, that the key ignores the interpolated values, fails:
  the template \<^verbatim>\<open>`${x} bg-white`\<close> with \<^verbatim>\<open>x = "p-4"\<close> and with \<^verbatim>\<open>x = "p-8"\<close>
  has two keys, and the second invocation makes a second component.
\<close>

theorem cache_key_ignores_values_counterexample:
  "cacheKey (Literal ['''', '' bg-white''] [''p-4''] :: press_state template_input)
     \<noteq> cacheKey (Literal ['''', '' bg-white''] [''p-8''] :: press_state template_input)
   \<and> w_ref (fst (template (fst (snd (template (twc View :: press_state template)
                 (Literal ['''', '' bg-white''] [''p-4'']) 0)))
               (Literal ['''', '' bg-white''] [''p-8'']) 1))
     \<noteq> w_ref (fst (template (twc View :: press_state template)
                 (Literal ['''', '' bg-white''] [''p-4'']) 0))"
proof -
  let ?L1 = "Literal ['''', '' bg-white''] [''p-4''] :: press_state template_input"
  let ?L2 = "Literal ['''', '' bg-white''] [''p-8''] :: press_state template_input"
  have keys: "cacheKey ?L2 \<noteq> cacheKey ?L1"
    by simp
  have "componentCache (fst (snd (template (twc View) ?L1 0))) (cacheKey ?L2) = None"
    unfolding twc_unfold by (rule fresh_cache [OF keys])
  then have "w_ref (fst (template (fst (snd (template (twc View) ?L1 0))) ?L2 1)) = 1"
    by (rule template_miss)
  moreover have "w_ref (fst (template (twc View) ?L1 0)) = 0"
    unfolding twc_unfold by (rule fresh_fields)
  ultimately have "w_ref (fst (template (fst (snd (template (twc View) ?L1 0))) ?L2 1))
      \<noteq> w_ref (fst (template (twc View) ?L1 0))"
    by (simp only:)
  with keys show ?thesis
    by (simp only: not_sym [OF keys] simp_thms)
qed

text \<open>
  The amended claim at work: \<^verbatim>\<open>`${x} bg-white`\<close> with \<^verbatim>\<open>x = "p-4"\<close> has the key
  \<^verbatim>\<open>"p-4 bg-white"\<close>, and invoked again it returns the component it made first.
\<close>

theorem cache_key_text_witness:
  "length [''p-4''] < length ['''', '' bg-white'']
   \<and> cacheKey (Literal ['''', '' bg-white''] [''p-4''] :: press_state template_input)
       = ''p-4 bg-white''
   \<and> template (fst (snd (template (twc View :: press_state template)
                 (Literal ['''', '' bg-white''] [''p-4'']) 0)))
        (Literal ['''', '' bg-white''] [''p-4'']) 5
       = (fst (template (twc View :: press_state template)
                 (Literal ['''', '' bg-white''] [''p-4'']) 0),
          fst (snd (template (twc View :: press_state template)
                 (Literal ['''', '' bg-white''] [''p-4'']) 0)), 5)"
proof -
  let ?L = "Literal ['''', '' bg-white''] [''p-4''] :: press_state template_input"
  let ?r = "template (twc View :: press_state template) ?L 0"
  have run: "?r = (fst ?r, fst (snd ?r), snd (snd ?r))"
    by simp
  have len: "length [''p-4''] < length ['''', '' bg-white'']"
    by simp
  note inst = cache_key_text [where strings = "['''', '' bg-white'']" and vals = "[''p-4'']"
      and t = "twc View :: press_state template" and n = 0 and w = "fst ?r"
      and ?t1.0 = "fst (snd ?r)" and ?n1.0 = "snd (snd ?r)" and m = 5]
  have key: "cacheKey ?L = ''p-4 bg-white''"
    using inst [THEN conjunct1, THEN mp, OF len] by simp
  have again: "template (fst (snd ?r)) ?L 5 = (fst ?r, fst (snd ?r), 5)"
    by (rule inst [THEN conjunct2, THEN conjunct2, THEN conjunct1, THEN mp, OF run])
  from len key again show ?thesis
    by (intro conjI)
qed

section \<open>The instance cache\<close>

text \<open>
  Claim C2. Two invocations of one binder whose inputs have the same text, that is the
  same cache key (the same literal template text, or functions with the same source
  text), return the same wrapped component, identity included; whatever other templates
  the binder was invoked with in between, the second invocation is answered from the
  cache: it leaves the binder as it is and allocates no new component.
\<close>

theorem same_key_same_instance:
  assumes "cacheKey i2 = cacheKey i1"
    and "template t i1 n = (w, t1, n1)"
    and "invoke_all t1 between n1 = (t2, n2)"
  shows "template t2 i2 m = (w, t2, m)"
proof -
  from assms(2) have "componentCache t1 (cacheKey i1) = Some w"
    by (rule template_stores)
  with assms(3) have "componentCache t2 (cacheKey i1) = Some w"
    by (rule invoke_all_keeps)
  with assms(1) show ?thesis
    by (simp add: template_hit)
qed

text \<open>
  \<^verbatim>\<open>twc(View)`bg-white`\<close>, then \<^verbatim>\<open>twc(View)`p-4`\<close>, then \<^verbatim>\<open>twc(View)`bg-white`\<close>
  again: the third call returns the component of the first.
\<close>

theorem same_key_same_instance_witness:
  "cacheKey (Literal [''bg-white''] [] :: press_state template_input)
     = cacheKey (Literal [''bg-white''] [] :: press_state template_input)
   \<and> template
       (fst (invoke_all (fst (snd (template (twc View :: press_state template) (Literal [''bg-white''] []) 0)))
               [Literal [''p-4''] []]
               (snd (snd (template (twc View :: press_state template) (Literal [''bg-white''] []) 0)))))
       (Literal [''bg-white''] [] :: press_state template_input) 9
     = (fst (template (twc View :: press_state template) (Literal [''bg-white''] []) 0),
        fst (invoke_all (fst (snd (template (twc View :: press_state template) (Literal [''bg-white''] []) 0)))
               [Literal [''p-4''] []]
               (snd (snd (template (twc View :: press_state template) (Literal [''bg-white''] []) 0)))),
        9)
   \<and> w_ref (fst (template (twc View :: press_state template)
               (Literal [''bg-white''] []) 0)) = 0"
proof -
  let ?i = "Literal [''bg-white''] [] :: press_state template_input"
  let ?r = "template (twc View :: press_state template) ?i 0"
  let ?s = "invoke_all (fst (snd ?r)) [Literal [''p-4''] []] (snd (snd ?r))"
  have run: "?r = (fst ?r, fst (snd ?r), snd (snd ?r))"
    by simp
  have more: "?s = (fst ?s, snd ?s)"
    by simp
  have ref: "w_ref (fst ?r) = 0"
    unfolding twc_unfold by (rule fresh_fields)
  have again: "template (fst ?s) ?i 9 = (fst ?r, fst ?s, 9)"
    by (rule same_key_same_instance [OF refl run more])
  from again ref show ?thesis
    by simp
qed

section \<open>Merging attrs with the incoming properties\<close>

text \<open>
  Claim C3. In the merge of an attrs mapping with the incoming properties, the
  properties win over the attrs on every key but \<^verbatim>\<open>style\<close>. When both sides carry a
  style (neither is \<^verbatim>\<open>null\<close> nor \<^verbatim>\<open>undefined\<close>) the merged style is an object that
  maps a key of the props-side style to the props-side value and any other key to the
  attrs-side value. The entries a style contributes are its own ones when it is an
  object, none when it is \<^verbatim>\<open>null\<close> or \<^verbatim>\<open>undefined\<close>, and for an array the entries of
  its layers taken left to right, a later layer overriding the earlier ones.
\<close>

theorem merge_props_over_attrs:
  "(j \<noteq> ''style'' \<longrightarrow>
      map_of (mergePropsWithAttrs a (p :: 's obj)) j = (map_of a ++ map_of p) j)
   \<and> (\<not> nullish (get a ''style'') \<longrightarrow> \<not> nullish (get p ''style'') \<longrightarrow>
        (\<exists>m. map_of (mergePropsWithAttrs a p) ''style'' = Some (Obj m)
           \<and> map_of m = map_of (style_entries (get a ''style'')) ++
                         map_of (style_entries (get p ''style''))))
   \<and> style_entries (Obj kvs) = (kvs :: 's obj)
   \<and> style_entries (Arr []) = ([] :: 's obj)
   \<and> map_of (style_entries (Arr (layers @ [layer :: 's jsval]))) =
       map_of (style_entries (Arr layers)) ++ map_of (style_entries layer)
   \<and> (nullish layer \<longrightarrow> style_entries layer = [])"
proof -
  have other: "j \<noteq> ''style'' \<longrightarrow> map_of (mergePropsWithAttrs a p) j = (map_of a ++ map_of p) j"
    by (simp add: map_of_merge_other)
  have style: "\<not> nullish (get a ''style'') \<longrightarrow> \<not> nullish (get p ''style'') \<longrightarrow>
        (\<exists>m. map_of (mergePropsWithAttrs a p) ''style'' = Some (Obj m)
           \<and> map_of m = map_of (style_entries (get a ''style'')) ++
                         map_of (style_entries (get p ''style'')))"
    using mergeStyles_both [of "get a ''style''" "get p ''style''"]
    by (auto simp: map_of_merge_style)
  have obj: "style_entries (Obj kvs) = kvs" and nil: "style_entries (Arr []) = []"
    by (simp_all add: style_entries_def)
  have null: "nullish layer \<longrightarrow> style_entries layer = []"
    by (cases layer) (simp_all add: style_entries_def)
  from other style obj nil style_entries_snoc [of layers layer] null show ?thesis
    by blast
qed

text \<open>
  Attrs \<^verbatim>\<open>{ placeholder: "Default", style: { backgroundColor: "white", padding: 10 } }\<close>
  under the properties
  \<^verbatim>\<open>{ placeholder: "Custom", style: [{ margin: 20 }, { backgroundColor: "blue" }] }\<close>.
\<close>

theorem merge_props_over_attrs_witness:
  "''placeholder'' \<noteq> ''style''
   \<and> map_of (mergePropsWithAttrs
        [(''placeholder'', Str ''Default''),
         (''style'', Obj [(''backgroundColor'', Str ''white''), (''padding'', Num 10)])]
        [(''placeholder'', Str ''Custom''),
         (''style'', Arr [Obj [(''margin'', Num 20)],
                          Obj [(''backgroundColor'', Str ''blue'' :: press_state jsval)]])])
        ''placeholder'' = Some (Str ''Custom'')
   \<and> (\<exists>m. map_of (mergePropsWithAttrs
        [(''placeholder'', Str ''Default''),
         (''style'', Obj [(''backgroundColor'', Str ''white''), (''padding'', Num 10)])]
        [(''placeholder'', Str ''Custom''),
         (''style'', Arr [Obj [(''margin'', Num 20)],
                          Obj [(''backgroundColor'', Str ''blue'' :: press_state jsval)]])])
        ''style'' = Some (Obj m)
      \<and> map_of m ''backgroundColor'' = Some (Str ''blue'')
      \<and> map_of m ''padding'' = Some (Num 10)
      \<and> map_of m ''margin'' = Some (Num 20))
   \<and> nullish (Null :: press_state jsval)
   \<and> style_entries (Null :: press_state jsval) = []"
proof -
  let ?a = "[(''placeholder'', Str ''Default''),
         (''style'', Obj [(''backgroundColor'', Str ''white''), (''padding'', Num 10)])]
         :: press_state obj"
  let ?p = "[(''placeholder'', Str ''Custom''),
         (''style'', Arr [Obj [(''margin'', Num 20)],
                          Obj [(''backgroundColor'', Str ''blue'' :: press_state jsval)]])]"
  have a: "\<not> nullish (get ?a ''style'')" and p: "\<not> nullish (get ?p ''style'')"
    by (simp_all add: get_def)
  have layers: "map_of (style_entries (get ?p ''style'')) ''backgroundColor'' = Some (Str ''blue'')"
    "map_of (style_entries (get ?p ''style'')) ''margin'' = Some (Num 20)"
    "map_of (style_entries (get ?p ''style'')) ''padding'' = None"
    by (simp_all add: get_def style_entries_def spread_def keys_def put_def)
  have base: "map_of (style_entries (get ?a ''style'')) ''padding'' = Some (Num 10)"
    by (simp add: get_def style_entries_def)
  note inst = merge_props_over_attrs [where a = ?a and p = ?p and j = "''placeholder''"
      and kvs = "[]" and layers = "[]" and layer = Null]
  from inst [THEN conjunct2, THEN conjunct1, THEN mp, OF a, THEN mp, OF p]
    inst [THEN conjunct1]
  obtain m where m: "map_of (mergePropsWithAttrs ?a ?p) ''style'' = Some (Obj m)"
    "map_of m = map_of (style_entries (get ?a ''style'')) ++ map_of (style_entries (get ?p ''style''))"
    and ph: "map_of (mergePropsWithAttrs ?a ?p) ''placeholder'' = (map_of ?a ++ map_of ?p) ''placeholder''"
    by auto
  from m(2) layers base have "map_of m ''backgroundColor'' = Some (Str ''blue'')"
    "map_of m ''padding'' = Some (Num 10)" "map_of m ''margin'' = Some (Num 20)"
    by (simp_all add: map_add_def)
  moreover have "style_entries (Null :: press_state jsval) = []"
    using inst [THEN conjunct2, THEN conjunct2, THEN conjunct2, THEN conjunct2, THEN conjunct2]
    by simp
  ultimately show ?thesis
    using m(1) ph by auto
qed

section \<open>A style set to undefined by the caller\<close>

text \<open>
  Claim C4 says that a style missing on one side, whether absent or \<^verbatim>\<open>null\<close> or
  \<^verbatim>\<open>undefined\<close>, leaves the other side's style unchanged. \<^verbatim>\<open>mergeStyles\<close> is written
  to do so, but \<^verbatim>\<open>mergePropsWithAttrs\<close> reaches it only when both styles are set, after
  its spread has copied the props over the attrs. With attrs
  \<^verbatim>\<open>{ style: { padding: 10 } }\<close> and the properties \<^verbatim>\<open>{ style: undefined }\<close> the merged
  style is \<^verbatim>\<open>undefined\<close> and the style of the attrs is lost, in the merge and in the
  element rendered by \<^verbatim>\<open>twc(View).attrs({ style: { padding: 10 } })`rounded`\<close>, while
  \<^verbatim>\<open>mergeStyles\<close> on the same two styles returns the style of the attrs.
\<close>

theorem explicit_undefined_style_loses_attrs_style:
  "get (mergePropsWithAttrs [(''style'', Obj [(''padding'', Num 10)])]
          [(''style'', Undefined :: press_state jsval)]) ''style'' = Undefined
   \<and> mergeStyles (Obj [(''padding'', Num 10)]) (Undefined :: press_state jsval)
       = Obj [(''padding'', Num 10)]
   \<and> get (el_props (ForwardedComponent
        (fst (template (the (attrs (twc View)
                 (AttrsObj [(''style'', Obj [(''padding'', Num 10)])])))
                (Literal [''rounded''] []) 0) :: press_state wrapped)
        [(''style'', Undefined)] Null)) ''style'' = Undefined"
proof -
  let ?a = "[(''style'', Obj [(''padding'', Num 10)])] :: press_state obj"
  let ?w = "fst (template (the (attrs (twc View) (AttrsObj ?a))) (Literal [''rounded''] []) 0)"
  have m: "map_of (mergePropsWithAttrs ?a [(''style'', Undefined)]) ''style'' = Some Undefined"
    by (simp add: map_of_merge_style get_def)
  have r: "rest_of [(''style'', Undefined :: press_state jsval)] = [(''style'', Undefined)]"
    by (simp add: rest_of_def keys_def get_def put_def)
  have fp: "map_of (finalProps ?w [(''style'', Undefined)]) ''style'' = Some Undefined"
    by (simp add: attrs_twc map_of_finalProps fresh_fields r m)
  have el: "map_of (el_props (ForwardedComponent ?w [(''style'', Undefined)] Null)) ''style''
      = Some Undefined"
    using fp by (simp add: el_other)
  have ms: "mergeStyles (Obj [(''padding'', Num 10)]) (Undefined :: press_state jsval)
       = Obj [(''padding'', Num 10)]"
    by (simp add: mergeStyles_def)
  from m el ms show ?thesis
    by (simp add: get_def)
qed

section \<open>Transient properties\<close>

text \<open>
  Claim C5. Under the default configuration, a property whose name starts with
  \<^verbatim>\<open>$\<close> and that the caller passes is part of the mapping handed to an attrs-resolving
  function and to a class-name function: both are applied to the incoming properties
  \<^verbatim>\<open>p\<close> themselves, where the property can be read, and not to the filtered rest. It is
  absent from the properties of the element given to the base component, for every
  wrapped component that filters with the default predicate, as the ones made by
  \<^verbatim>\<open>twc(C).attrs(f)\<close> do.
\<close>

theorem dollar_props_seen_not_forwarded:
  assumes "nm = CHR ''$'' # cs" and "map_of (p :: 's obj) nm = Some v"
  shows "(w_attrs w = Some (AttrsFn f) \<longrightarrow>
            finalProps w p =
              filterProps (mergePropsWithAttrs (f p) (rest_of p)) (w_shouldForwardProp w))
       \<and> (w_stringsOrFn w = ClassFn src g \<longrightarrow> baseClassName w p = g p)
       \<and> get p nm = v
       \<and> (w_shouldForwardProp w = defaultShouldForwardProp (empty_config :: 's config) \<longrightarrow>
            map_of (el_props (ForwardedComponent w p ref)) nm = None)
       \<and> (attrs (twc C) (AttrsFn f) = Some t \<longrightarrow>
            template t (ClassFn src g) n = (w', t', n') \<longrightarrow>
              w_attrs w' = Some (AttrsFn f) \<and> w_stringsOrFn w' = ClassFn src g
            \<and> w_shouldForwardProp w' = defaultShouldForwardProp (empty_config :: 's config))"
proof -
  have nm: "nm \<noteq> ''children''" "nm \<noteq> ''className''" "nm \<noteq> ''ref''"
    using assms(1) by simp_all
  have rej: "\<not> defaultShouldForwardProp (empty_config :: 's config) nm"
    unfolding assms(1) by (rule default_rejects_dollar)
  have attrs_arg: "w_attrs w = Some (AttrsFn f) \<longrightarrow>
            finalProps w p =
              filterProps (mergePropsWithAttrs (f p) (rest_of p)) (w_shouldForwardProp w)"
    by (simp add: finalProps_def)
  have class_arg: "w_stringsOrFn w = ClassFn src g \<longrightarrow> baseClassName w p = g p"
    by (simp add: baseClassName_def)
  have readable: "get p nm = v"
    using assms(2) by (rule get_Some)
  have gone: "w_shouldForwardProp w = defaultShouldForwardProp (empty_config :: 's config) \<longrightarrow>
            map_of (el_props (ForwardedComponent w p ref)) nm = None"
    using rej by (simp add: el_other [OF nm] map_of_finalProps)
  have chain: "w_attrs w' = Some (AttrsFn f) \<and> w_stringsOrFn w' = ClassFn src g
            \<and> w_shouldForwardProp w' = defaultShouldForwardProp (empty_config :: 's config)"
    if t: "attrs (twc C) (AttrsFn f) = Some t" and w: "template t (ClassFn src g) n = (w', t', n')"
  proof -
    from t have t_eq: "t = createTemplate (compose_of empty_config) C (Some (AttrsFn f))
                            (defaultShouldForwardProp (empty_config :: 's config)) None"
      by (simp add: attrs_def twc_def createTwc_def createTemplate_fields)
    from w have "w' = fst (template t (ClassFn src g) n)"
      by simp
    then show ?thesis
      unfolding t_eq by (simp add: fresh_fields)
  qed
  from attrs_arg class_arg readable gone chain show ?thesis
    by blast
qed

text \<open>
  The secure input of the tests, \<^verbatim>\<open>twc(View).attrs((props) => ...)\<close> with a class
  function of the variant: \<^verbatim>\<open>$secure\<close> and \<^verbatim>\<open>$variant\<close> are read by the two functions
  and \<^verbatim>\<open>$secure\<close> does not reach the element.
\<close>

theorem dollar_props_seen_not_forwarded_witness:
  "map_of [(''testID'', Str ''input''), (''$secure'', Bool True),
           (''$variant'', Str ''primary'' :: press_state jsval)] ''$secure'' = Some (Bool True)
   \<and> attrs (twc View) (AttrsFn secure_attrs) = Some (the (attrs (twc View) (AttrsFn secure_attrs)))
   \<and> map_of (el_props (ForwardedComponent
        (fst (template (the (attrs (twc View) (AttrsFn secure_attrs)))
                (ClassFn variant_src variant_class) 0))
        [(''testID'', Str ''input''), (''$secure'', Bool True), (''$variant'', Str ''primary'')]
        Null)) ''$secure'' = None
   \<and> map_of (finalProps
        (fst (template (the (attrs (twc View) (AttrsFn secure_attrs)))
                (ClassFn variant_src variant_class) 0))
        [(''testID'', Str ''input''), (''$secure'', Bool True), (''$variant'', Str ''primary'')])
        ''secureTextEntry'' = Some (Bool True)
   \<and> baseClassName
        (fst (template (the (attrs (twc View) (AttrsFn secure_attrs)))
                (ClassFn variant_src variant_class) 0))
        [(''testID'', Str ''input''), (''$secure'', Bool True), (''$variant'', Str ''primary'')]
       = Obj [(''bg-blue-500 text-white'', Bool True), (''bg-gray-200 text-gray-800'', Bool False)]"
proof -
  let ?p = "[(''testID'', Str ''input''), (''$secure'', Bool True),
             (''$variant'', Str ''primary'' :: press_state jsval)]"
  let ?t = "the (attrs (twc View) (AttrsFn secure_attrs))"
  let ?r = "template ?t (ClassFn variant_src variant_class) 0"
  have p: "map_of ?p ''$secure'' = Some (Bool True)"
    by simp
  have t: "attrs (twc View) (AttrsFn secure_attrs) = Some ?t"
    by (simp add: attrs_twc)
  have r: "?r = (fst ?r, fst (snd ?r), snd (snd ?r))"
    by simp
  note inst = dollar_props_seen_not_forwarded [OF refl p, where C = View and f = secure_attrs
      and t = ?t and src = variant_src and g = variant_class and n = 0 and w = "fst ?r"
      and w' = "fst ?r" and t' = "fst (snd ?r)" and n' = "snd (snd ?r)" and ref = Null]
  note made = inst [THEN conjunct2, THEN conjunct2, THEN conjunct2, THEN conjunct2, THEN mp,
      OF t, THEN mp, OF r]
  have fp: "finalProps (fst ?r) ?p =
        filterProps (mergePropsWithAttrs (secure_attrs ?p) (rest_of ?p))
          (defaultShouldForwardProp (empty_config :: press_state config))"
    using inst [THEN conjunct1, THEN mp, OF made [THEN conjunct1]]
    by (simp only: made [THEN conjunct2, THEN conjunct2])
  have base: "baseClassName (fst ?r) ?p = variant_class ?p"
    by (rule inst [THEN conjunct2, THEN conjunct1, THEN mp, OF made [THEN conjunct2, THEN conjunct1]])
  have gone: "map_of (el_props (ForwardedComponent (fst ?r) ?p Null)) ''$secure'' = None"
    by (rule inst [THEN conjunct2, THEN conjunct2, THEN conjunct2, THEN conjunct1, THEN mp,
          OF made [THEN conjunct2, THEN conjunct2]])
  have "map_of (finalProps (fst ?r) ?p) ''secureTextEntry'' = Some (Bool True)"
    unfolding fp
    by (simp add: map_of_filterProps map_of_merge_other map_of_rest_of map_add_def
          secure_attrs_def get_def defaultShouldForwardProp_def empty_config_def)
  moreover have "baseClassName (fst ?r) ?p =
      Obj [(''bg-blue-500 text-white'', Bool True), (''bg-gray-200 text-gray-800'', Bool False)]"
    unfolding base by (simp add: variant_class_def get_def)
  ultimately show ?thesis
    using p t gone by simp
qed

section \<open>Replacing the forwarding predicate\<close>

text \<open>
  \<^verbatim>\<open>transientProps\<close> makes a binder whose forwarding predicate is the negation of the
  match, whatever predicate the binder had before. Of the properties that the attrs and
  the caller provide, the forwarded ones are those that the list or the predicate does
  not match, but for a property named \<^verbatim>\<open>__proto__\<close>, which is never forwarded. After
  \<^verbatim>\<open>transientProps(["size"])\<close> the element has no \<^verbatim>\<open>size\<close>, and its \<^verbatim>\<open>sized\<close> is
  the one provided, which with no attrs bound is the one the caller passes.
\<close>

lemma transientProps_negates_match:
  "t_shouldForwardProp (transientProps t (Names ns)) = (\<lambda>prop. prop \<notin> set ns)
   \<and> t_shouldForwardProp (transientProps t (Pred fn)) = (\<lambda>prop. \<not> fn prop)
   \<and> map_of (finalProps (fst (template (transientProps t (Names ns)) i n)) p) j =
       (if j \<in> set ns \<or> j = ''__proto__'' then None
        else map_of (case t_attrs t of
                       None \<Rightarrow> rest_of p
                     | Some (AttrsObj a) \<Rightarrow> mergePropsWithAttrs a (rest_of p)
                     | Some (AttrsFn f) \<Rightarrow> mergePropsWithAttrs (f p) (rest_of p)) j)
   \<and> map_of (finalProps (fst (template (transientProps t (Pred fn)) i n)) p) j =
       (if fn j \<or> j = ''__proto__'' then None
        else map_of (case t_attrs t of
                       None \<Rightarrow> rest_of p
                     | Some (AttrsObj a) \<Rightarrow> mergePropsWithAttrs a (rest_of p)
                     | Some (AttrsFn f) \<Rightarrow> mergePropsWithAttrs (f p) (rest_of p)) j)
   \<and> map_of (el_props (ForwardedComponent
                (fst (template (transientProps t (Names [''size''])) i n)) p ref)) ''size'' = None
   \<and> map_of (el_props (ForwardedComponent
                (fst (template (transientProps t (Names [''size''])) i n)) p ref)) ''sized'' =
       map_of (case t_attrs t of
                 None \<Rightarrow> rest_of p
               | Some (AttrsObj a) \<Rightarrow> mergePropsWithAttrs a (rest_of p)
               | Some (AttrsFn f) \<Rightarrow> mergePropsWithAttrs (f p) (rest_of p)) ''sized''
   \<and> (t_attrs t = None \<longrightarrow>
        map_of (el_props (ForwardedComponent
                  (fst (template (transientProps t (Names [''size''])) i n)) p ref)) ''sized'' =
          map_of p ''sized'')"
proof -
  let ?provided = "case t_attrs t of
                     None \<Rightarrow> rest_of p
                   | Some (AttrsObj a) \<Rightarrow> mergePropsWithAttrs a (rest_of p)
                   | Some (AttrsFn f) \<Rightarrow> mergePropsWithAttrs (f p) (rest_of p)"
  let ?size = "fst (template (transientProps t (Names [''size''])) i n)"
  have names: "t_shouldForwardProp (transientProps t (Names ns)) = (\<lambda>prop. prop \<notin> set ns)"
    and pred: "t_shouldForwardProp (transientProps t (Pred fn)) = (\<lambda>prop. \<not> fn prop)"
    by (simp_all add: transientProps_def Let_def createTemplate_fields)
  have kept_names: "map_of (finalProps (fst (template (transientProps t (Names ns)) i n)) p) j =
       (if j \<in> set ns \<or> j = ''__proto__'' then None else map_of ?provided j)" for ns
    by (simp add: transientProps_def Let_def fresh_fields map_of_finalProps)
  have kept_pred: "map_of (finalProps (fst (template (transientProps t (Pred fn)) i n)) p) j =
       (if fn j \<or> j = ''__proto__'' then None else map_of ?provided j)"
    by (simp add: transientProps_def Let_def fresh_fields map_of_finalProps)
  have size: "map_of (el_props (ForwardedComponent ?size p ref)) ''size'' = None"
    by (simp add: el_other transientProps_def Let_def fresh_fields map_of_finalProps)
  have sized: "map_of (el_props (ForwardedComponent ?size p ref)) ''sized'' =
      map_of ?provided ''sized''"
    by (simp add: el_other transientProps_def Let_def fresh_fields map_of_finalProps)
  have passed: "t_attrs t = None \<longrightarrow>
      map_of (el_props (ForwardedComponent ?size p ref)) ''sized'' = map_of p ''sized''"
    using sized by (simp add: map_of_rest_of)
  from names pred kept_names [of ns] kept_pred size sized passed show ?thesis
    by (intro conjI)
qed

text \<open>
  \<^verbatim>\<open>twc(View).transientProps(["size"])`rounded`\<close> rendered with \<^verbatim>\<open>size\<close>, \<^verbatim>\<open>sized\<close>
  and \<^verbatim>\<open>$x\<close>: \<^verbatim>\<open>size\<close> is held back, \<^verbatim>\<open>sized\<close> is forwarded, and so is \<^verbatim>\<open>$x\<close>, which the
  default predicate that was replaced would have held back.
\<close>

lemma transientProps_size_sized:
  "t_attrs (twc View :: press_state template) = None
   \<and> map_of (el_props (ForwardedComponent
        (fst (template (transientProps (twc View) (Names [''size''])) (Literal [''rounded''] []) 0))
        [(''size'', Str ''md''), (''sized'', Str ''yes''), (''$x'', Num 1 :: press_state jsval)]
        Null)) ''size'' = None
   \<and> map_of (el_props (ForwardedComponent
        (fst (template (transientProps (twc View) (Names [''size''])) (Literal [''rounded''] []) 0))
        [(''size'', Str ''md''), (''sized'', Str ''yes''), (''$x'', Num 1 :: press_state jsval)]
        Null)) ''sized'' = Some (Str ''yes'')
   \<and> t_shouldForwardProp (transientProps (twc View :: press_state template) (Names [''size''])) ''$x''
   \<and> \<not> t_shouldForwardProp (twc View :: press_state template) ''$x''
   \<and> \<not> t_shouldForwardProp (transientProps (twc View :: press_state template) (Pred is_size)) ''size''
   \<and> t_shouldForwardProp (transientProps (twc View :: press_state template) (Pred is_size)) ''sized''"
proof -
  let ?t = "twc View :: press_state template"
  let ?p = "[(''size'', Str ''md''), (''sized'', Str ''yes''), (''$x'', Num 1 :: press_state jsval)]"
  note inst = transientProps_negates_match [where t = ?t and ns = "[''size'']" and fn = is_size
      and i = "Literal [''rounded''] []" and n = 0 and p = ?p and ref = Null and j = "''size''"]
  have no_attrs: "t_attrs ?t = None"
    by (simp add: twc_unfold createTemplate_fields)
  have size: "map_of (el_props (ForwardedComponent
        (fst (template (transientProps ?t (Names [''size''])) (Literal [''rounded''] []) 0))
        ?p Null)) ''size'' = None"
    by (rule inst [THEN conjunct2, THEN conjunct2, THEN conjunct2, THEN conjunct2, THEN conjunct1])
  have sized: "map_of (el_props (ForwardedComponent
        (fst (template (transientProps ?t (Names [''size''])) (Literal [''rounded''] []) 0))
        ?p Null)) ''sized'' = Some (Str ''yes'')"
    using inst [THEN conjunct2, THEN conjunct2, THEN conjunct2, THEN conjunct2, THEN conjunct2,
        THEN conjunct2, THEN mp, OF no_attrs]
    by simp
  have names: "t_shouldForwardProp (transientProps ?t (Names [''size''])) ''$x''"
    by (simp add: inst [THEN conjunct1])
  have before: "\<not> t_shouldForwardProp ?t ''$x''"
    by (simp add: twc_unfold createTemplate_fields)
  have pred: "\<not> t_shouldForwardProp (transientProps ?t (Pred is_size)) ''size''"
    "t_shouldForwardProp (transientProps ?t (Pred is_size)) ''sized''"
    by (simp_all add: inst [THEN conjunct2, THEN conjunct1] is_size_def)
  from no_attrs size sized names before pred show ?thesis
    by (intro conjI)
qed

text \<open>
  Claim C6 says that \<^verbatim>\<open>transientProps\<close> with a predicate argument excludes from
  forwarding exactly the names on which the predicate returns true. The predicate the
  code installs is that negation, and \<^verbatim>\<open>filterProps\<close> consults it for every provided
  property; but it copies an accepted property by the assignment
  \<^verbatim>\<open>filteredProps[prop] = props[prop]\<close>, which for the name \<^verbatim>\<open>__proto__\<close> makes no
  property. With
  \<^verbatim>\<open>twc(View).transientProps((prop) => prop === "size").attrs(a)`rounded`\<close>, where
  \<^verbatim>\<open>a\<close> is \<^verbatim>\<open>JSON.parse('{"__proto__":"x","sized":"yes"}')\<close>, rendered with no
  properties: the predicate is false on \<^verbatim>\<open>__proto__\<close>, the installed predicate accepts
  the name, the merged properties own it, as they own \<^verbatim>\<open>sized\<close>, and still it is excluded:
  neither the filtered properties nor the element have it, while \<^verbatim>\<open>sized\<close> is forwarded.
\<close>

theorem proto_property_excluded_though_accepted:
  "\<not> is_size ''__proto__''
   \<and> w_shouldForwardProp
        (fst (template (the (attrs (transientProps (twc View) (Pred is_size))
                  (AttrsObj [(''__proto__'', Str ''x''), (''sized'', Str ''yes'')])))
                (Literal [''rounded''] []) 0) :: press_state wrapped) ''__proto__''
   \<and> map_of (mergePropsWithAttrs [(''__proto__'', Str ''x''), (''sized'', Str ''yes'')]
        (rest_of ([] :: press_state obj))) ''__proto__'' = Some (Str ''x'')
   \<and> map_of (finalProps
        (fst (template (the (attrs (transientProps (twc View) (Pred is_size))
                  (AttrsObj [(''__proto__'', Str ''x''), (''sized'', Str ''yes'')])))
                (Literal [''rounded''] []) 0) :: press_state wrapped) []) ''__proto__'' = None
   \<and> map_of (el_props (ForwardedComponent
        (fst (template (the (attrs (transientProps (twc View) (Pred is_size))
                  (AttrsObj [(''__proto__'', Str ''x''), (''sized'', Str ''yes'')])))
                (Literal [''rounded''] []) 0) :: press_state wrapped) [] Null)) ''__proto__'' = None
   \<and> map_of (el_props (ForwardedComponent
        (fst (template (the (attrs (transientProps (twc View) (Pred is_size))
                  (AttrsObj [(''__proto__'', Str ''x''), (''sized'', Str ''yes'')])))
                (Literal [''rounded''] []) 0) :: press_state wrapped) [] Null)) ''sized''
       = Some (Str ''yes'')"
proof -
  let ?a = "[(''__proto__'', Str ''x''), (''sized'', Str ''yes'')] :: press_state obj"
  let ?t = "transientProps (twc View) (Pred is_size) :: press_state template"
  let ?w = "fst (template (the (attrs ?t (AttrsObj ?a))) (Literal [''rounded''] []) 0)"
  have t: "attrs ?t (AttrsObj ?a) =
      Some (createTemplate (\<lambda>a b. Str (clsx [a, b])) View (Some (AttrsObj ?a))
              (\<lambda>prop. \<not> is_size prop) None)"
    by (simp add: attrs_def transientProps_def Let_def twc_unfold createTemplate_fields)
  have w: "w_shouldForwardProp ?w = (\<lambda>prop. \<not> is_size prop)" "w_attrs ?w = Some (AttrsObj ?a)"
    by (simp_all add: t fresh_fields)
  have rej: "\<not> is_size ''__proto__''" "\<not> is_size ''sized''"
    by (simp_all add: is_size_def)
  have accepted: "w_shouldForwardProp ?w ''__proto__''"
    by (simp add: w rej)
  have merged: "map_of (mergePropsWithAttrs ?a (rest_of [])) ''__proto__'' = Some (Str ''x'')"
    "map_of (mergePropsWithAttrs ?a (rest_of [])) ''sized'' = Some (Str ''yes'')"
    by (simp_all add: map_of_merge_other map_of_rest_of map_add_def)
  have fp: "map_of (finalProps ?w []) ''__proto__'' = None"
    "map_of (finalProps ?w []) ''sized'' = Some (Str ''yes'')"
    by (simp_all add: map_of_finalProps w rej merged)
  have el: "map_of (el_props (ForwardedComponent ?w [] Null)) ''__proto__'' = None"
    "map_of (el_props (ForwardedComponent ?w [] Null)) ''sized'' = Some (Str ''yes'')"
    by (simp_all add: el_other fp)
  from rej(1) accepted merged(1) fp(1) el show ?thesis
    by (intro conjI)
qed

section \<open>Children\<close>

text \<open>
  Claim C7. On every render, a bound children renderer is applied to exactly the incoming
  \<^verbatim>\<open>children\<close> value, which is \<^verbatim>\<open>undefined\<close> when no children are passed; with no
  renderer bound the children pass through unchanged. The result is the \<^verbatim>\<open>children\<close>
  of the emitted element. \<^verbatim>\<open>withChildren(r)\<close> binds \<^verbatim>\<open>r\<close>; a binder straight from
  \<^verbatim>\<open>createTwc\<close> has no renderer.
\<close>

theorem children_renderer:
  "(w_childrenRenderer (w :: 's wrapped) = Some r \<longrightarrow> finalChildren w p = r (get p ''children''))
   \<and> (w_childrenRenderer w = Some r \<longrightarrow> map_of p ''children'' = None \<longrightarrow>
        finalChildren w p = r Undefined)
   \<and> (w_childrenRenderer w = None \<longrightarrow> finalChildren w p = get p ''children'')
   \<and> map_of (el_props (ForwardedComponent w p ref)) ''children'' = Some (finalChildren w p)
   \<and> w_childrenRenderer (fst (template (withChildren t r) i n)) = Some r
   \<and> w_childrenRenderer (fst (template (createTwc config C) i n) :: 's wrapped) = None"
  by (simp add: finalChildren_def get_None withChildren_def createTwc_def fresh_fields
        ForwardedComponent_def map_of_put)

text \<open>
  The button of the tests rendered without children shows the fallback of its renderer;
  a plain card passes its children on.
\<close>

theorem children_renderer_witness:
  "w_childrenRenderer
     (fst (template (withChildren (twc Pressable) fallback_renderer)
             (Literal [''bg-blue-500''] []) 0)) = Some fallback_renderer
   \<and> map_of [(''testID'', Str ''button'')] ''children'' = None
   \<and> finalChildren
       (fst (template (withChildren (twc Pressable) fallback_renderer)
               (Literal [''bg-blue-500''] []) 0))
       [(''testID'', Str ''button'')] = Str ''Fallback''
   \<and> w_childrenRenderer
       (fst (template (twc View) (Literal [''bg-white''] []) 0) :: press_state wrapped) = None
   \<and> finalChildren
       (fst (template (twc View) (Literal [''bg-white''] []) 0))
       [(''children'', Str ''Content'' :: press_state jsval)] = Str ''Content''"
  using children_renderer
          [of "fst (template (withChildren (twc Pressable) fallback_renderer)
                      (Literal [''bg-blue-500''] []) 0)"
              fallback_renderer "[(''testID'', Str ''button'')]" Null
              "twc Pressable" "Literal [''bg-blue-500''] []" 0 empty_config View]
        children_renderer
          [of "fst (template (twc View) (Literal [''bg-white''] []) 0) :: press_state wrapped"
              fallback_renderer "[(''children'', Str ''Content'')]" Null
              "twc Pressable" "Literal [''bg-white''] []" 0 empty_config View]
  by (simp add: fallback_renderer_def twc_def get_def)

section \<open>The final class name\<close>

text \<open>
  Claim C8. When the class input is a function and its result on the incoming properties
  is itself a function, the final class name is a function too: on an interaction state
  it composes the deferred base class name at that state with the \<^verbatim>\<open>className\<close>
  property, applied to the same state when that is a function and taken as it is
  otherwise. In every other case the final class name is the compose of the base class
  name and the \<^verbatim>\<open>className\<close> property.
\<close>

theorem deferred_class_name:
  "(w_stringsOrFn w = ClassFn src classFn \<longrightarrow> classFn p = Fn bsrc b \<longrightarrow>
       is_function (finalClassName w p)
     \<and> (get p ''className'' = Fn csrc c \<longrightarrow>
          call (finalClassName w p) s = w_compose w (b s) (c s))
     \<and> (\<not> is_function (get p ''className'') \<longrightarrow>
          call (finalClassName w p) s = w_compose w (b s) (get p ''className'')))
   \<and> (\<not> is_function (baseClassName w p) \<longrightarrow>
        finalClassName w p = w_compose w (baseClassName w p) (get p ''className''))"
  by (simp add: finalClassName_def baseClassName_def Let_def)

text \<open>
  The pressable of the tests, hovered and pressed, with a function as \<^verbatim>\<open>className\<close>,
  and a card with a literal template and a string.
\<close>

theorem deferred_class_name_witness:
  "w_stringsOrFn (fst (template (twc Pressable) (ClassFn hover_src hover_class) 0))
     = ClassFn hover_src hover_class
   \<and> hover_class [(''className'', press_className)] = Fn hover_inner_src hover_class_fn
   \<and> get [(''className'', press_className)] ''className'' = Fn press_src press_class_fn
   \<and> is_function (finalClassName
        (fst (template (twc Pressable) (ClassFn hover_src hover_class) 0))
        [(''className'', press_className)])
   \<and> call (finalClassName
        (fst (template (twc Pressable) (ClassFn hover_src hover_class) 0))
        [(''className'', press_className)])
        \<lparr>pressed = True, hovered = True, focused = False\<rparr> = Str ''bg-blue-600 scale-95''
   \<and> \<not> is_function (get [(''className'', Str ''rounded'' :: press_state jsval)] ''className'')
   \<and> call (finalClassName
        (fst (template (twc Pressable) (ClassFn hover_src hover_class) 0))
        [(''className'', Str ''rounded'')])
        \<lparr>pressed = True, hovered = True, focused = False\<rparr> = Str ''bg-blue-600 rounded''
   \<and> \<not> is_function (baseClassName
        (fst (template (twc View) (Literal [''bg-white''] []) 0))
        [(''className'', Str ''shadow'' :: press_state jsval)])
   \<and> finalClassName
        (fst (template (twc View) (Literal [''bg-white''] []) 0))
        [(''className'', Str ''shadow'' :: press_state jsval)] = Str ''bg-white shadow''"
proof -
  let ?w = "fst (template (twc Pressable) (ClassFn hover_src hover_class) 0)"
  let ?p = "[(''className'', press_className)]"
  let ?s = "\<lparr>pressed = True, hovered = True, focused = False\<rparr>"
  let ?v = "fst (template (twc View) (Literal [''bg-white''] []) 0) :: press_state wrapped"
  let ?q = "[(''className'', Str ''shadow'' :: press_state jsval)]"
  have input: "w_stringsOrFn ?w = ClassFn hover_src hover_class"
    and cmp: "w_compose ?w = (\<lambda>a b. Str (clsx [a, b]))"
    and cmp': "w_compose ?v = (\<lambda>a b. Str (clsx [a, b]))"
    unfolding twc_unfold by (rule fresh_fields)+
  have base: "hover_class ?p = Fn hover_inner_src hover_class_fn"
    by (simp add: hover_class_def)
  have cls: "get ?p ''className'' = Fn press_src press_class_fn"
    by (simp add: get_def press_className_def)
  have lit: "baseClassName ?v ?q = Str ''bg-white''"
    by (simp add: baseClassName_def twc_unfold fresh_fields)
  have nf: "\<not> is_function (baseClassName ?v ?q)"
    by (simp add: lit)
  from deferred_class_name [where w = ?w and src = hover_src and classFn = hover_class
      and p = ?p and bsrc = hover_inner_src and b = hover_class_fn and csrc = press_src
      and c = press_class_fn and s = ?s] input base cls
  have fn: "is_function (finalClassName ?w ?p)"
    and at: "call (finalClassName ?w ?p) ?s = w_compose ?w (hover_class_fn ?s) (press_class_fn ?s)"
    by blast+
  from deferred_class_name [where w = ?v and p = ?q] nf
  have plain: "finalClassName ?v ?q = w_compose ?v (baseClassName ?v ?q) (get ?q ''className'')"
    by blast
  let ?u = "[(''className'', Str ''rounded'' :: press_state jsval)]"
  have base_u: "hover_class ?u = Fn hover_inner_src hover_class_fn"
    by (simp add: hover_class_def)
  have str: "\<not> is_function (get ?u ''className'')"
    by (simp add: get_def)
  from deferred_class_name [where w = ?w and src = hover_src and classFn = hover_class
      and p = ?u and bsrc = hover_inner_src and b = hover_class_fn and s = ?s] input base_u str
  have as_is: "call (finalClassName ?w ?u) ?s = w_compose ?w (hover_class_fn ?s) (get ?u ''className'')"
    by blast
  have as_is': "call (finalClassName ?w ?u) ?s = Str ''bg-blue-600 rounded''"
    unfolding as_is cmp by (simp add: hover_class_fn_def clsx_pair get_def)
  have at': "call (finalClassName ?w ?p) ?s = Str ''bg-blue-600 scale-95''"
    unfolding at cmp by (simp add: hover_class_fn_def press_class_fn_def clsx_pair)
  have plain': "finalClassName ?v ?q = Str ''bg-white shadow''"
    unfolding plain cmp' lit by (simp add: clsx_pair get_def)
  from input base cls fn at' str as_is' nf plain' show ?thesis
    by (intro conjI)
qed

text \<open>
  Claim C9. In the default configuration the final class name of a literal template with
  text \<^verbatim>\<open>T\<close> is \<^verbatim>\<open>T\<close> and the classes of the \<^verbatim>\<open>className\<close> property joined with a
  space, a falsy or empty segment being skipped; nothing is deduplicated, so a class
  name equal to \<^verbatim>\<open>T\<close> is there twice. With no attrs bound this is the \<^verbatim>\<open>className\<close> of
  the element. The template \<^verbatim>\<open>bg-white p-4\<close> with the class name \<^verbatim>\<open>shadow\<close> gives
  \<^verbatim>\<open>bg-white p-4 shadow\<close>.
\<close>

theorem default_compose_joins:
  "finalClassName (fst (template (twc C) (Literal strings vals) n)) (p :: 's obj) =
     Str (join '' '' (filter (\<lambda>x. x \<noteq> [])
            [String_raw strings vals,
             if truthy (get p ''className'') then toVal (get p ''className'') else []]))
   \<and> (get p ''className'' = Str c \<longrightarrow>
        finalClassName (fst (template (twc C) (Literal strings vals) n)) p =
          Str (join '' '' (filter (\<lambda>x. x \<noteq> []) [String_raw strings vals, c])))
   \<and> (String_raw strings vals \<noteq> [] \<longrightarrow> get p ''className'' = Str (String_raw strings vals) \<longrightarrow>
        finalClassName (fst (template (twc C) (Literal strings vals) n)) p =
          Str (String_raw strings vals @ '' '' @ String_raw strings vals))
   \<and> map_of (el_props (ForwardedComponent (fst (template (twc C) (Literal strings vals) n)) p ref))
         ''className'' =
       Some (finalClassName (fst (template (twc C) (Literal strings vals) n)) p)
   \<and> finalClassName (fst (template (twc C) (Literal [''bg-white p-4''] []) n))
         [(''className'', Str ''shadow'' :: 's jsval)] = Str ''bg-white p-4 shadow''"
proof -
  let ?w = "fst (template (twc C) (Literal strings vals) n)"
  have cmp: "w_compose ?w = (\<lambda>a b. Str (clsx [a, b]))"
    and inp: "w_stringsOrFn ?w = Literal strings vals"
    and noattrs: "w_attrs ?w = None"
    unfolding twc_unfold by (rule fresh_fields)+
  have main: "finalClassName ?w p =
     Str (join '' '' (filter (\<lambda>x. x \<noteq> [])
            [String_raw strings vals,
             if truthy (get p ''className'') then toVal (get p ''className'') else []]))"
    by (simp only: finalClassName_def Let_def baseClassName_literal [OF inp] is_function.simps
          if_False cmp clsx_pair)
  have el: "map_of (el_props (ForwardedComponent ?w p ref)) ''className'' = Some (finalClassName ?w p)"
    by (simp add: el_className finalProps_className_none noattrs)
  have ex: "finalClassName (fst (template (twc C) (Literal [''bg-white p-4''] []) n))
         [(''className'', Str ''shadow'' :: 's jsval)] = Str ''bg-white p-4 shadow''"
    by (simp add: finalClassName_def Let_def baseClassName_def twc_unfold fresh_fields
          clsx_pair get_def)
  have str: "get p ''className'' = Str c \<longrightarrow>
        finalClassName ?w p = Str (join '' '' (filter (\<lambda>x. x \<noteq> []) [String_raw strings vals, c]))"
    using main by simp
  have dup: "String_raw strings vals \<noteq> [] \<longrightarrow> get p ''className'' = Str (String_raw strings vals) \<longrightarrow>
        finalClassName ?w p = Str (String_raw strings vals @ '' '' @ String_raw strings vals)"
    using main by simp
  from main str dup el ex show ?thesis
    by blast
qed

text \<open>
  The card of the scenario, and a class name that repeats the template: \<^verbatim>\<open>p-4\<close> with
  the class name \<^verbatim>\<open>p-4\<close> gives \<^verbatim>\<open>p-4 p-4\<close>.
\<close>

theorem default_compose_joins_witness:
  "get [(''className'', Str ''shadow'' :: press_state jsval)] ''className'' = Str ''shadow''
   \<and> map_of (el_props (ForwardedComponent
        (fst (template (twc View) (Literal [''bg-white p-4''] []) 0))
        [(''className'', Str ''shadow'' :: press_state jsval)] Null)) ''className''
       = Some (Str ''bg-white p-4 shadow'')
   \<and> String_raw [''p-4''] [] \<noteq> []
   \<and> get [(''className'', Str ''p-4'' :: press_state jsval)] ''className''
       = Str (String_raw [''p-4''] [])
   \<and> finalClassName (fst (template (twc View) (Literal [''p-4''] []) 0))
        [(''className'', Str ''p-4'' :: press_state jsval)] = Str ''p-4 p-4''"
  using default_compose_joins [where C = View and strings = "[''bg-white p-4'']"
      and vals = "[]" and n = 0
      and p = "[(''className'', Str ''shadow'' :: press_state jsval)]" and c = "''shadow''"
      and ref = Null]
    default_compose_joins [where C = View and strings = "[''p-4'']"
      and vals = "[]" and n = 0
      and p = "[(''className'', Str ''p-4'' :: press_state jsval)]" and c = "''p-4''"
      and ref = Null]
  by (simp add: get_def)

section \<open>What the forwarding predicate cannot touch\<close>

text \<open>
  \<^verbatim>\<open>className\<close> and \<^verbatim>\<open>children\<close> are taken out of the incoming properties before the
  filter runs. For every forwarding predicate, one that rejects \<^verbatim>\<open>className\<close> or
  \<^verbatim>\<open>children\<close> included, the resolved children are the \<^verbatim>\<open>children\<close> of the element,
  and the composed final class name is its \<^verbatim>\<open>className\<close> when the attrs, static or
  resolved, carry no \<^verbatim>\<open>className\<close> of their own, or when the predicate rejects that
  name. The final class name and the final children do not depend on the predicate, and
  two predicates that agree on all other names filter the incoming properties alike.
\<close>

lemma class_name_and_children_reach_base:
  "map_of (el_props (ForwardedComponent w p ref)) ''children'' = Some (finalChildren w p)
   \<and> ((case w_attrs w of
          None \<Rightarrow> True
        | Some (AttrsObj a) \<Rightarrow> map_of a ''className'' = None
        | Some (AttrsFn f) \<Rightarrow> map_of (f p) ''className'' = None) \<longrightarrow>
        map_of (el_props (ForwardedComponent w p ref)) ''className'' = Some (finalClassName w p))
   \<and> (\<not> w_shouldForwardProp w ''className'' \<longrightarrow>
        map_of (el_props (ForwardedComponent w p ref)) ''className'' = Some (finalClassName w p))
   \<and> finalClassName (w\<lparr>w_shouldForwardProp := Q\<rparr>) p = finalClassName w p
   \<and> finalChildren (w\<lparr>w_shouldForwardProp := Q\<rparr>) p = finalChildren w p
   \<and> ((\<forall>j. j \<noteq> ''className'' \<longrightarrow> j \<noteq> ''children'' \<longrightarrow> P j = Q j) \<longrightarrow>
        filterProps (rest_of p) P = filterProps (rest_of p) Q)"
proof -
  have cls: "(case w_attrs w of
          None \<Rightarrow> True
        | Some (AttrsObj a) \<Rightarrow> map_of a ''className'' = None
        | Some (AttrsFn f) \<Rightarrow> map_of (f p) ''className'' = None) \<longrightarrow>
        map_of (el_props (ForwardedComponent w p ref)) ''className'' = Some (finalClassName w p)"
    by (simp add: el_className finalProps_className_none)
  have rejected: "\<not> w_shouldForwardProp w ''className'' \<longrightarrow>
        map_of (el_props (ForwardedComponent w p ref)) ''className'' = Some (finalClassName w p)"
    by (simp add: el_className map_of_finalProps)
  have indep: "finalClassName (w\<lparr>w_shouldForwardProp := Q\<rparr>) p = finalClassName w p"
    "finalChildren (w\<lparr>w_shouldForwardProp := Q\<rparr>) p = finalChildren w p"
    by (simp_all add: finalClassName_def finalChildren_def baseClassName_def Let_def)
  have filt: "(\<forall>j. j \<noteq> ''className'' \<longrightarrow> j \<noteq> ''children'' \<longrightarrow> P j = Q j) \<longrightarrow>
        filterProps (rest_of p) P = filterProps (rest_of p) Q"
    by (auto intro!: filterProps_cong dest: keys_rest_of)
  from el_children [of w p ref] cls rejected indep filt show ?thesis
    by (intro conjI)
qed

text \<open>
  A card whose predicate rejects \<^verbatim>\<open>className\<close> and \<^verbatim>\<open>children\<close>, rendered with both:
  the element has the composed class name and the children.
\<close>

lemma rejecting_card:
  "w_attrs (fst (template (transientProps (twc View) (Names [''className'', ''children'']))
                  (Literal [''rounded''] []) 0) :: press_state wrapped) = None
   \<and> map_of (el_props (ForwardedComponent
        (fst (template (transientProps (twc View) (Names [''className'', ''children'']))
                (Literal [''rounded''] []) 0))
        [(''className'', Str ''shadow''), (''children'', Str ''Content''),
         (''testID'', Str ''card'' :: press_state jsval)] Null)) ''className''
       = Some (Str ''rounded shadow'')
   \<and> map_of (el_props (ForwardedComponent
        (fst (template (transientProps (twc View) (Names [''className'', ''children'']))
                (Literal [''rounded''] []) 0))
        [(''className'', Str ''shadow''), (''children'', Str ''Content''),
         (''testID'', Str ''card'' :: press_state jsval)] Null)) ''children''
       = Some (Str ''Content'')
   \<and> filterProps (rest_of [(''className'', Str ''shadow''), (''children'', Str ''Content''),
         (''testID'', Str ''card'' :: press_state jsval)]) forward_but_class_and_children
       = filterProps (rest_of [(''className'', Str ''shadow''), (''children'', Str ''Content''),
         (''testID'', Str ''card'' :: press_state jsval)]) forward_all"
proof -
  let ?w = "fst (template (transientProps (twc View) (Names [''className'', ''children'']))
                  (Literal [''rounded''] []) 0) :: press_state wrapped"
  let ?p = "[(''className'', Str ''shadow''), (''children'', Str ''Content''),
         (''testID'', Str ''card'' :: press_state jsval)]"
  have w: "w_attrs ?w = None" "w_childrenRenderer ?w = None"
    "w_compose ?w = (\<lambda>a b. Str (clsx [a, b]))" "w_stringsOrFn ?w = Literal [''rounded''] []"
    by (simp_all add: transientProps_def Let_def twc_unfold createTemplate_fields fresh_fields)
  have agree: "\<forall>j. j \<noteq> ''className'' \<longrightarrow> j \<noteq> ''children'' \<longrightarrow>
      forward_but_class_and_children j = forward_all j"
    by (simp add: forward_but_class_and_children_def forward_all_def)
  from class_name_and_children_reach_base [where w = ?w and p = ?p and ref = Null
      and P = forward_but_class_and_children and Q = forward_all] w(1) agree
  have el: "map_of (el_props (ForwardedComponent ?w ?p Null)) ''className''
        = Some (finalClassName ?w ?p)"
    "map_of (el_props (ForwardedComponent ?w ?p Null)) ''children'' = Some (finalChildren ?w ?p)"
    "filterProps (rest_of ?p) forward_but_class_and_children = filterProps (rest_of ?p) forward_all"
    by simp_all
  have "finalClassName ?w ?p = Str ''rounded shadow''"
    by (simp add: finalClassName_def baseClassName_def Let_def w clsx_pair get_def)
  moreover have "finalChildren ?w ?p = Str ''Content''"
    by (simp add: finalChildren_def w get_def)
  ultimately show ?thesis
    using el w(1) by simp
qed

text \<open>
  Claim C10 says that the composed final class name reaches the base component on every
  render, whatever the forwarding predicate. The wrapper sets \<^verbatim>\<open>className\<close> to the
  composed name and declares the attrs as
  \<^verbatim>\<open>Omit<Partial<ComponentProps<TComponent>>, 'className'> & Record<string, any>\<close>,
  which leaves \<^verbatim>\<open>className\<close> out and lets it in again as an arbitrary key; the
  properties that pass the filter are spread after the composed class name. With
  \<^verbatim>\<open>twc(View).attrs({ className: "x" })`a`\<close> rendered with no properties, the default
  predicate forwards the \<^verbatim>\<open>className\<close> of the attrs: the composed final class name is
  \<^verbatim>\<open>a\<close>, and the \<^verbatim>\<open>className\<close> of the element is \<^verbatim>\<open>x\<close>.
\<close>

theorem attrs_className_replaces_composed:
  "finalClassName
      (fst (template (the (attrs (twc View) (AttrsObj [(''className'', Str ''x'')])))
              (Literal [''a''] []) 0) :: press_state wrapped) [] = Str ''a''
   \<and> w_shouldForwardProp
      (fst (template (the (attrs (twc View) (AttrsObj [(''className'', Str ''x'')])))
              (Literal [''a''] []) 0) :: press_state wrapped) ''className''
   \<and> map_of (el_props (ForwardedComponent
      (fst (template (the (attrs (twc View) (AttrsObj [(''className'', Str ''x'')])))
              (Literal [''a''] []) 0) :: press_state wrapped) [] Null)) ''className''
     = Some (Str ''x'')"
proof -
  let ?w = "fst (template (the (attrs (twc View) (AttrsObj [(''className'', Str ''x'')])))
              (Literal [''a''] []) 0) :: press_state wrapped"
  have fc: "finalClassName ?w [] = Str ''a''"
    by (simp add: attrs_twc finalClassName_def baseClassName_def Let_def fresh_fields clsx_pair
          get_def)
  have fwd: "w_shouldForwardProp ?w ''className''"
    by (simp add: attrs_twc fresh_fields)
  have fp: "map_of (finalProps ?w []) ''className'' = Some (Str ''x'')"
    by (simp add: attrs_twc map_of_finalProps fresh_fields map_of_merge_other map_of_rest_of
          map_add_def)
  have el: "map_of (el_props (ForwardedComponent ?w [] Null)) ''className'' = Some (Str ''x'')"
    using fp by (simp add: el_className)
  from fc fwd el show ?thesis
    by (intro conjI)
qed

end
